theory Spec2Isabelle
  imports Main "HOL-Library.Sublist" "HOL-Library.AList"
begin

section \<open>Data model\<close>

text \<open>
  The memory scheduler of MemOS works on textual memory items: an identifier, the memory
  text and a metadata object (\<open>memos.memories.textual.item\<close>). Only the metadata fields
  the scheduler code reads are kept.
\<close>

datatype py_error = IndexError | KeyError | TypeError | ValueError

record metadata =
  tags :: "string list"
  user_id :: string
  memory_type :: string

record memory_item =
  item_id :: string
  memory :: string
  metadata :: metadata

text \<open>The kinds of \<open>mem_cube.text_mem\<close> the scheduler tells apart with \<open>isinstance\<close>.\<close>

datatype text_mem_kind = TreeTextMemory | NaiveTextMemory | OtherTextMemory

record mem_cube =
  text_mem_base :: text_mem_kind
  working_memory :: "memory_item list"

section \<open>Python helpers\<close>

text \<open>
  \<open>xs[i]\<close> for a Python list: a negative index counts from the end, an index out of
  range raises \<open>IndexError\<close> (\<open>None\<close> here).
\<close>

definition py_index :: "'a list \<Rightarrow> int \<Rightarrow> 'a option" where
  "py_index xs i =
     (if 0 \<le> i \<and> i < int (length xs) then Some (xs ! nat i)
      else if - int (length xs) \<le> i \<and> i < 0 then Some (xs ! nat (int (length xs) + i))
      else None)"

text \<open>\<open>str(n)\<close> for a non-negative integer.\<close>

fun string_of_nat :: "nat \<Rightarrow> string" where
  "string_of_nat n =
     (if n < 10 then [char_of (48 + n)]
      else string_of_nat (n div 10) @ [char_of (48 + n mod 10)])"

text \<open>
  \<open>s.find(sub)\<close>: the lowest index at which \<open>sub\<close> occurs in \<open>s\<close>; Python's
  \<open>-1\<close> is \<open>None\<close>.
\<close>

fun py_find :: "string \<Rightarrow> string \<Rightarrow> nat option" where
  "py_find sub [] = (if sub = [] then Some 0 else None)"
| "py_find sub (c # cs) =
     (if prefix sub (c # cs) then Some 0 else map_option Suc (py_find sub cs))"

text \<open>
  \<open>s.count(sub)\<close>: the number of non-overlapping occurrences of \<open>sub\<close> in \<open>s\<close>,
  scanning from the left; for the empty \<open>sub\<close> Python counts \<open>len(s) + 1\<close>.
\<close>

function py_count :: "string \<Rightarrow> string \<Rightarrow> nat" where
  "py_count sub [] = (if sub = [] then 1 else 0)"
| "py_count sub (c # cs) =
     (if sub = [] then Suc (py_count sub cs)
      else if prefix sub (c # cs) then Suc (py_count sub (drop (length sub) (c # cs)))
      else py_count sub cs)"
  by pat_completeness auto
termination
  by (relation "measure (\<lambda>(sub, s). length s)") auto

section \<open>Memory update handler: \<open>process_session_turn\<close>\<close>

text \<open>
  \<open>memory_update_handler.py\<close>. The monitor's \<open>detect_intent\<close> and \<open>timed_trigger\<close>
  and the two search back ends are collaborators and are passed in; a search of the
  naive text memory that raises is \<open>None\<close> (the source catches it and uses \<open>[]\<close>).
  The function's bare \<open>return\<close> on the not-triggered path is the result \<open>None\<close>.
\<close>

record intent_result =
  trigger_retrieval :: bool
  missing_evidences :: "string list"

definition search_evidence ::
  "text_mem_kind \<Rightarrow> (string \<Rightarrow> nat \<Rightarrow> memory_item list option) \<Rightarrow>
   (string \<Rightarrow> nat \<Rightarrow> memory_item list) \<Rightarrow> nat \<Rightarrow> string \<Rightarrow> memory_item list" where
  "search_evidence kind naive_search retriever_search k item =
     (if kind = NaiveTextMemory
      then (case naive_search item k of None \<Rightarrow> [] | Some results \<Rightarrow> results)
      else retriever_search item k)"

definition process_session_turn ::
  "(string list \<Rightarrow> string list \<Rightarrow> intent_result) \<Rightarrow> bool \<Rightarrow>
   (string \<Rightarrow> nat \<Rightarrow> memory_item list option) \<Rightarrow>
   (string \<Rightarrow> nat \<Rightarrow> memory_item list) \<Rightarrow>
   string list \<Rightarrow> mem_cube \<Rightarrow> nat \<Rightarrow>
   (memory_item list \<times> memory_item list) option" where
  "process_session_turn detect_intent timed_trigger naive_search retriever_search
       queries cube top_k =
     (if text_mem_base cube = OtherTextMemory then Some ([], [])
      else
        let cur_working_memory =
              (if text_mem_base cube = NaiveTextMemory then []
               else take top_k (working_memory cube));
            text_working_memory = map memory cur_working_memory;
            intent = detect_intent queries text_working_memory;
            time_trigger_flag = timed_trigger
        in if \<not> trigger_retrieval intent \<and> \<not> time_trigger_flag then None
           else
             let evidences =
                   (if \<not> trigger_retrieval intent \<and> time_trigger_flag then queries
                    else missing_evidences intent);
                 k_per_evidence = max 1 (top_k div max 1 (length evidences))
             in Some (cur_working_memory,
                      concat (map (search_evidence (text_mem_base cube) naive_search
                                     retriever_search k_per_evidence) evidences)))"

text \<open>
  \<open>long_memory_update_process\<close> unpacks the result into two names
  (\<open>cur_working_memory, new_candidates = self.process_session_turn(...)\<close>), which raises
  \<open>TypeError\<close> on \<open>None\<close>, and hands both lists to the \<open>replace_working_memory\<close>
  service of the handler context. The registration of the queries with the query
  monitor before the call and the activation refresh after it are not modelled.
\<close>

definition long_memory_update_process ::
  "(string list \<Rightarrow> string list \<Rightarrow> intent_result) \<Rightarrow> bool \<Rightarrow>
   (string \<Rightarrow> nat \<Rightarrow> memory_item list option) \<Rightarrow>
   (string \<Rightarrow> nat \<Rightarrow> memory_item list) \<Rightarrow>
   (memory_item list \<Rightarrow> memory_item list \<Rightarrow> 'r) \<Rightarrow>
   string list \<Rightarrow> mem_cube \<Rightarrow> nat \<Rightarrow> py_error + 'r" where
  "long_memory_update_process detect_intent timed_trigger naive_search retriever_search
       replace_service queries cube top_k =
     (case process_session_turn detect_intent timed_trigger naive_search retriever_search
             queries cube top_k of
        None \<Rightarrow> Inl TypeError
      | Some (cur_working_memory, new_candidates) \<Rightarrow>
          Inr (replace_service cur_working_memory new_candidates))"

section \<open>Enhancement pipeline\<close>

text \<open>
  \<open>enhancement_pipeline.py\<close>. \<open>FINE_STRATEGY\<close> is a module constant of
  \<open>memos.types.general_types\<close> and is passed in. The language model answers the
  \<open>n\<close>-th \<open>generate\<close> call of a batch with \<open>llm n\<close>, and of batch \<open>b\<close> among
  several with \<open>llm b n\<close> (\<open>None\<close>: the call raises);
  \<open>extract_list_items_in_answer\<close> and the regular expressions of
  \<open>_parse_index_and_text\<close> are passed in as functions.
\<close>

datatype fine_strategy = REWRITE | RECREATE | UNKNOWN_STRATEGY

definition recreate_items :: "string \<Rightarrow> string list \<Rightarrow> memory_item list" where
  "recreate_items uid processed =
     map (\<lambda>new_mem. \<lparr>item_id = [], memory = new_mem,
            metadata = \<lparr>tags = [], user_id = uid, memory_type = ''LongTermMemory''\<rparr>\<rparr>)
         processed"

definition rewrite_items ::
  "(string \<Rightarrow> nat option \<times> string) \<Rightarrow> memory_item list \<Rightarrow> string list \<Rightarrow>
   memory_item list" where
  "rewrite_items parse_index_and_text memories processed =
     List.map_filter
       (\<lambda>(j, item).
          let (idx, new_text) = parse_index_and_text item;
              orig = (case idx of
                        Some i \<Rightarrow> if i < length memories then Some (memories ! i)
                                  else if j < length memories then Some (memories ! j)
                                  else None
                      | None \<Rightarrow> if j < length memories then Some (memories ! j) else None)
          in map_option (\<lambda>orig. orig\<lparr>memory := new_text\<rparr>) orig)
       (enumerate 0 processed)"

text \<open>
  One pass through the body of the \<open>try\<close>: \<open>None\<close> when it raises (the generation
  fails, the answer has no list items, or \<open>memories[0]\<close> does not exist).
\<close>

definition enhancement_attempt ::
  "fine_strategy \<Rightarrow> (string \<Rightarrow> nat option \<times> string) \<Rightarrow> (string \<Rightarrow> string list option) \<Rightarrow>
   memory_item list \<Rightarrow> string option \<Rightarrow> memory_item list option" where
  "enhancement_attempt strategy parse_index_and_text extract_list_items memories response =
     (case response of
        None \<Rightarrow> None
      | Some llm_response \<Rightarrow>
          (case extract_list_items llm_response of
             None \<Rightarrow> None
           | Some processed \<Rightarrow>
               if length processed > 0 then
                 (case memories of
                    [] \<Rightarrow> None
                  | m0 # _ \<Rightarrow>
                      Some (case strategy of
                              RECREATE \<Rightarrow> recreate_items (user_id (metadata m0)) processed
                            | REWRITE \<Rightarrow> rewrite_items parse_index_and_text memories processed
                            | UNKNOWN_STRATEGY \<Rightarrow> []))
               else None))"

text \<open>
  The retry loop \<open>while attempt <= max(0, retries) + 1\<close>. The third component of the
  result is the number of \<open>generate\<close> calls made.
\<close>

function enhancement_loop ::
  "(nat \<Rightarrow> memory_item list option) \<Rightarrow> memory_item list \<Rightarrow> int \<Rightarrow> nat \<Rightarrow>
   memory_item list \<times> bool \<times> nat" where
  "enhancement_loop attempt_result memories retries attempt =
     (if int attempt \<le> max 0 retries + 1 then
        (case attempt_result attempt of
           Some enhanced \<Rightarrow> (enhanced, True, Suc attempt)
         | None \<Rightarrow> enhancement_loop attempt_result memories retries (Suc attempt))
      else (memories, False, attempt))"
  by pat_completeness auto
termination
  by (relation "measure (\<lambda>(f, ms, retries, attempt). nat (max 0 retries + 2) - attempt)") auto

declare enhancement_loop.simps [simp del]

text \<open>
  \<open>_build_enhancement_prompt\<close> reads \<open>query_history[0]\<close> when the history has fewer
  than two entries, so an empty history raises \<open>IndexError\<close> before the loop starts.
\<close>

definition process_enhancement_batch ::
  "fine_strategy \<Rightarrow> (string \<Rightarrow> nat option \<times> string) \<Rightarrow> (string \<Rightarrow> string list option) \<Rightarrow>
   (nat \<Rightarrow> string option) \<Rightarrow> string list \<Rightarrow> memory_item list \<Rightarrow> int \<Rightarrow>
   py_error + (memory_item list \<times> bool \<times> nat)" where
  "process_enhancement_batch strategy parse_index_and_text extract_list_items llm
       query_history memories retries =
     (if query_history = [] then Inl IndexError
      else Inr (enhancement_loop
                  (\<lambda>n. enhancement_attempt strategy parse_index_and_text extract_list_items
                          memories (llm n))
                  memories retries 0))"

text \<open>
  \<open>_split_batches\<close>: the loop \<open>while start < n\<close> does not advance when
  \<open>batch_size\<close> is 0, so the function is partial; \<open>None\<close> is "does not return".
\<close>

partial_function (option) split_batches ::
  "'a list \<Rightarrow> nat \<Rightarrow> nat \<Rightarrow> (nat \<times> nat \<times> 'a list) list \<Rightarrow> (nat \<times> nat \<times> 'a list) list option" where
  "split_batches memories batch_size start batches =
     (if start < length memories
      then (let end = min (start + batch_size) (length memories)
            in split_batches memories batch_size end
                 (batches @ [(start, end, take (end - start) (drop start memories))]))
      else Some batches)"

text \<open>
  \<open>enhance_memories_with_query\<close>. One batch when there is no batch size or the
  memories fit in it; otherwise the batches run on a thread pool and their results
  are collected as they complete: the order in which \<open>enhanced_memories\<close> is extended
  depends on the scheduling (here the order of submission), the success flag does not.
  An exception of a batch is caught by the outer \<open>try\<close>, which gives back the input
  with \<open>False\<close>.
\<close>

definition enhance_memories_with_query ::
  "fine_strategy \<Rightarrow> (string \<Rightarrow> nat option \<times> string) \<Rightarrow> (string \<Rightarrow> string list option) \<Rightarrow>
   (nat \<Rightarrow> nat \<Rightarrow> string option) \<Rightarrow> nat option \<Rightarrow> int \<Rightarrow> string list \<Rightarrow>
   memory_item list \<Rightarrow> (memory_item list \<times> bool) option" where
  "enhance_memories_with_query strategy parse_index_and_text extract_list_items llm
       batch_size retries query_history memories =
     (let one_batch =
            (case process_enhancement_batch strategy parse_index_and_text extract_list_items
                    (llm 0) query_history memories retries of
               Inl e \<Rightarrow> Some (memories, False)
             | Inr (enhanced_memories, success_flag, calls) \<Rightarrow>
                 Some (enhanced_memories, success_flag))
      in if memories = [] then Some (memories, True)
         else
           (case batch_size of
              None \<Rightarrow> one_batch
            | Some bsize \<Rightarrow>
                if length memories \<le> bsize then one_batch
                else
                  (case split_batches memories bsize 0 [] of
                     None \<Rightarrow> None
                   | Some batches \<Rightarrow>
                       let outcomes =
                             map (\<lambda>(bi, s, e, texts).
                                    process_enhancement_batch strategy parse_index_and_text
                                      extract_list_items (llm bi) query_history texts retries)
                                 (enumerate 0 batches)
                       in if list_ex isl outcomes then Some (memories, False)
                          else Some (concat (map (\<lambda>outcome. fst (projr outcome)) outcomes),
                                     list_all (\<lambda>outcome. fst (snd (projr outcome)))
                                              outcomes))))"

section \<open>History manager: related content\<close>

text \<open>
  \<open>history_manager.py\<close>. \<open>_append_related_content\<close> appends a section of conflicting
  and a section of duplicate memories to the text of the new item, each item cut to 200
  characters and each section to about 1000; \<open>_detach_related_content\<close> cuts the text
  at the first section marker it finds. The line feed is \<open>CHR 0x0A\<close>.
\<close>

definition CONFLICT_MEMORY_TITLE :: string where
  "CONFLICT_MEMORY_TITLE = ''[possibly conflicting memories]''"

definition DUPLICATE_MEMORY_TITLE :: string where
  "DUPLICATE_MEMORY_TITLE = ''[possibly duplicate memories]''"

definition max_per_item_len :: nat where "max_per_item_len = 200"
definition max_section_len :: nat where "max_section_len = 1000"

fun section_items :: "string \<Rightarrow> string list \<Rightarrow> string" where
  "section_items section_content [] = section_content"
| "section_items section_content (mem # rest) =
     (let snippet = (if length mem > max_per_item_len
                     then take max_per_item_len mem @ ''...'' else mem)
      in if length section_content + length snippet + 5 > max_section_len
         then section_content @ [CHR 0x0A] @ ''- ... (more items truncated)''
         else section_items (section_content @ [CHR 0x0A] @ ''- '' @ snippet) rest)"

definition format_section :: "string \<Rightarrow> string list \<Rightarrow> string" where
  "format_section title items =
     (if items = [] then []
      else [CHR 0x0A, CHR 0x0A] @ title @ '':'' @ section_items [] items)"

definition append_related_content ::
  "memory_item \<Rightarrow> string list \<Rightarrow> string list \<Rightarrow> memory_item" where
  "append_related_content new_item duplicates conflicts =
     (let append_text = format_section CONFLICT_MEMORY_TITLE conflicts
                        @ format_section DUPLICATE_MEMORY_TITLE duplicates
      in if append_text \<noteq> [] then new_item\<lparr>memory := memory new_item @ append_text\<rparr>
         else new_item)"

definition detach_markers :: "string list" where
  "detach_markers = [[CHR 0x0A, CHR 0x0A] @ CONFLICT_MEMORY_TITLE @ '':'',
                     [CHR 0x0A, CHR 0x0A] @ DUPLICATE_MEMORY_TITLE @ '':'']"

fun cut_index_loop :: "string \<Rightarrow> nat option \<Rightarrow> string list \<Rightarrow> nat option" where
  "cut_index_loop text cut_index [] = cut_index"
| "cut_index_loop text cut_index (marker # markers) =
     cut_index_loop text
       (case py_find marker text of
          None \<Rightarrow> cut_index
        | Some idx \<Rightarrow>
            (case cut_index of
               None \<Rightarrow> Some idx
             | Some c \<Rightarrow> if idx < c then Some idx else Some c))
       markers"

definition detach_related_content :: "memory_item \<Rightarrow> memory_item" where
  "detach_related_content new_item =
     (case cut_index_loop (memory new_item) None detach_markers of
        None \<Rightarrow> new_item
      | Some c \<Rightarrow> new_item\<lparr>memory := take c (memory new_item)\<rparr>)"

section \<open>Working memory monitors\<close>

text \<open>
  \<open>memory_ops.py\<close>, \<open>transform_working_memories_to_monitors\<close>. A monitor entry is a
  \<open>MemoryMonitorItem\<close>. \<open>query_keywords\<close> is the dictionary from keyword to its
  frequency in the query history, in iteration order; \<open>transform_name_to_key\<close> of
  \<open>filter_utils\<close> is passed in.
\<close>

record monitor_item =
  memory_text :: string
  tree_memory_item :: memory_item
  tree_memory_item_mapping_key :: string
  sorting_score :: int
  keywords_score :: int
  recording_count :: nat

fun keywords_loop :: "string \<Rightarrow> int \<Rightarrow> (string \<times> int) list \<Rightarrow> int" where
  "keywords_loop text_mem score [] = score"
| "keywords_loop text_mem score ((keyword, count) # rest) =
     (let keyword_count = py_count keyword text_mem
      in keywords_loop text_mem
           (if keyword_count > 0 then score + int keyword_count * count else score) rest)"

definition keywords_score_of :: "(string \<times> int) list \<Rightarrow> string \<Rightarrow> int" where
  "keywords_score_of query_keywords text_mem =
     (if query_keywords \<noteq> [] \<and> text_mem \<noteq> [] then keywords_loop text_mem 0 query_keywords
      else 0)"

definition transform_working_memories_to_monitors ::
  "(string \<Rightarrow> string) \<Rightarrow> (string \<times> int) list \<Rightarrow> memory_item list \<Rightarrow> monitor_item list" where
  "transform_working_memories_to_monitors transform_name_to_key query_keywords memories =
     map (\<lambda>(idx, mem).
            \<lparr>memory_text = memory mem,
             tree_memory_item = mem,
             tree_memory_item_mapping_key = transform_name_to_key (memory mem),
             sorting_score = int (length memories) - int idx,
             keywords_score = keywords_score_of query_keywords (memory mem),
             recording_count = 1\<rparr>)
         (enumerate 0 memories)"

section \<open>Rerank pipeline\<close>

text \<open>
  \<open>rerank_pipeline.py\<close> (\<open>post_processor.py\<close> holds the same two functions line for
  line). The collaborators are fields of an environment: \<open>transform_name_to_key\<close>,
  \<open>filter_vector_based_similar_memories\<close> and \<open>filter_too_short_memories\<close> of
  \<open>filter_utils\<close> (the two thresholds are fixed when the pipeline is built),
  \<open>build_prompt\<close>, the language model's \<open>generate\<close>, and \<open>extract_json_obj\<close> of
  \<open>misc_utils\<close>, which gives the parsed value or raises (\<open>None\<close>).

  A parsed JSON value; a JSON number with a fraction behaves like \<open>JNull\<close> in every
  operation used here (it can be neither sliced nor used as an index).
\<close>

datatype json =
  JNull | JBool bool | JInt int | JStr string | JList "json list" | JObj "(string \<times> json) list"

record rerank_env =
  transform_name_to_key :: "string \<Rightarrow> string"
  filter_vector_based_similar_memories :: "string list \<Rightarrow> string list"
  filter_too_short_memories :: "string list \<Rightarrow> string list"
  build_prompt :: "string list \<Rightarrow> string list \<Rightarrow> string"
  generate :: "string \<Rightarrow> string"
  extract_json_obj :: "string \<Rightarrow> json option"

text \<open>
  \<open>response["new_order"][:top_k]\<close>: a list or a string can be sliced (the elements of a
  string are strings of one character); anything else raises.
\<close>

definition slice_new_order :: "json \<Rightarrow> nat \<Rightarrow> json list option" where
  "slice_new_order v top_k =
     (case v of
        JList xs \<Rightarrow> Some (take top_k xs)
      | JStr s \<Rightarrow> Some (map (\<lambda>c. JStr [c]) (take top_k s))
      | _ \<Rightarrow> None)"

text \<open>
  \<open>original_memories[idx]\<close>: an integer (or a boolean, which Python reads as 0 or 1)
  in range gives the text; any other index raises.
\<close>

definition index_memory :: "string list \<Rightarrow> json \<Rightarrow> string option" where
  "index_memory original_memories idx =
     (case idx of
        JInt i \<Rightarrow> py_index original_memories i
      | JBool b \<Rightarrow> py_index original_memories (if b then 1 else 0)
      | _ \<Rightarrow> None)"

text \<open>
  The body of the \<open>try\<close> in \<open>rerank_memories\<close>: \<open>None\<close> when any step raises (no
  JSON object, no \<open>new_order\<close>, an index that cannot be used, no \<open>reasoning\<close> when
  the success is logged).
\<close>

definition rerank_try :: "json option \<Rightarrow> string list \<Rightarrow> nat \<Rightarrow> string list option" where
  "rerank_try parsed original_memories top_k =
     (case parsed of
        Some (JObj obj) \<Rightarrow>
          (case map_of obj ''new_order'' of
             None \<Rightarrow> None
           | Some v \<Rightarrow>
               (case slice_new_order v top_k of
                  None \<Rightarrow> None
                | Some new_order \<Rightarrow>
                    (case those (map (index_memory original_memories) new_order) of
                       None \<Rightarrow> None
                     | Some text_memories_with_new_order \<Rightarrow>
                         (case map_of obj ''reasoning'' of
                            None \<Rightarrow> None
                          | Some reasoning \<Rightarrow> Some text_memories_with_new_order))))
      | _ \<Rightarrow> None)"

definition rerank_prompt :: "rerank_env \<Rightarrow> string \<Rightarrow> string list \<Rightarrow> string" where
  "rerank_prompt env query original_memories =
     build_prompt env [''[0] '' @ query]
       (map (\<lambda>(i, mem). ''['' @ string_of_nat i @ ''] '' @ mem) (enumerate 0 original_memories))"

text \<open>\<open>queries[0]\<close> is read outside the \<open>try\<close>: an empty query list raises.\<close>

definition rerank_memories ::
  "rerank_env \<Rightarrow> string list \<Rightarrow> string list \<Rightarrow> nat \<Rightarrow> py_error + (string list \<times> bool)" where
  "rerank_memories env queries original_memories top_k =
     (case queries of
        [] \<Rightarrow> Inl IndexError
      | query # _ \<Rightarrow>
          let response = generate env (rerank_prompt env query original_memories)
          in (case rerank_try (extract_json_obj env response) original_memories top_k of
                Some text_memories_with_new_order \<Rightarrow> Inr (text_memories_with_new_order, True)
              | None \<Rightarrow> Inr (take top_k original_memories, False)))"

text \<open>
  \<open>list(dict.fromkeys(xs))\<close> keeps the first occurrence of each element, in order.
  The dictionary comprehension \<open>memory_map\<close> keeps, for each key, the last item with it.
\<close>

definition dict_fromkeys :: "'a list \<Rightarrow> 'a list" where
  "dict_fromkeys xs = rev (remdups (rev xs))"

definition memory_map :: "rerank_env \<Rightarrow> memory_item list \<Rightarrow> string \<Rightarrow> memory_item option" where
  "memory_map env combined_memory =
     map_of (rev (map (\<lambda>mem_obj. (transform_name_to_key env (memory mem_obj), mem_obj))
                      combined_memory))"

definition unique_memory :: "rerank_env \<Rightarrow> memory_item list \<Rightarrow> string list" where
  "unique_memory env combined_memory =
     dict_fromkeys
       (filter_too_short_memories env
          (filter_vector_based_similar_memories env (map memory combined_memory)))"

definition map_back :: "rerank_env \<Rightarrow> memory_item list \<Rightarrow> string list \<Rightarrow> memory_item list" where
  "map_back env combined_memory texts =
     List.map_filter
       (\<lambda>text. memory_map env combined_memory (transform_name_to_key env text)) texts"

definition process_and_rerank_memories ::
  "rerank_env \<Rightarrow> string list \<Rightarrow> memory_item list \<Rightarrow> memory_item list \<Rightarrow> nat \<Rightarrow>
   py_error + (memory_item list \<times> bool)" where
  "process_and_rerank_memories env queries original_memory new_memory top_k =
     (let combined_memory = original_memory @ new_memory
      in case rerank_memories env queries (unique_memory env combined_memory) top_k of
           Inl e \<Rightarrow> Inl e
         | Inr (text_memories_with_new_order, success_flag) \<Rightarrow>
             Inr (map_back env combined_memory text_memories_with_new_order, success_flag))"

text \<open>
  Sample data for the closed examples below: five memory items, and an environment
  whose key function is the identity, whose similarity filter keeps everything, whose
  length filter keeps the texts of at least six characters, and whose language model
  answer parses to the given value.
\<close>

definition sample_item :: "string \<Rightarrow> string \<Rightarrow> string list \<Rightarrow> memory_item" where
  "sample_item i text ts =
     \<lparr>item_id = i, memory = text,
      metadata = \<lparr>tags = ts, user_id = ''u1'', memory_type = ''WorkingMemory''\<rparr>\<rparr>"

definition sample_env :: "json option \<Rightarrow> rerank_env" where
  "sample_env parsed =
     \<lparr>transform_name_to_key = (\<lambda>name. name),
      filter_vector_based_similar_memories = (\<lambda>texts. texts),
      filter_too_short_memories = filter (\<lambda>text. 6 \<le> length text),
      build_prompt = (\<lambda>queries current_order. concat queries @ concat current_order),
      generate = (\<lambda>prompt. ''response''),
      extract_json_obj = (\<lambda>response. parsed)\<rparr>"

section \<open>Replacing the working memory\<close>

text \<open>
  Modelled from the spec: \<open>MemoryFilter.filter_unrelated_memories\<close>
  (\<open>memory_filter.py\<close> is not among the sources). The specification has it make one
  call to the language model that returns a boolean vector, and on a parse failure
  return the input unchanged with \<open>ok = False\<close>. The argument is the parsed vector,
  \<open>None\<close> when parsing failed; an item is kept when its flag is true.
\<close>

definition filter_unrelated_memories ::
  "bool list option \<Rightarrow> memory_item list \<Rightarrow> memory_item list \<times> bool" where
  "filter_unrelated_memories answer memories =
     (case answer of
        None \<Rightarrow> (memories, False)
      | Some keep \<Rightarrow> (map fst (filter snd (zip memories keep)), True))"

text \<open>
  \<open>memory_ops.py\<close>, \<open>replace_working_memory\<close>. The working-memory monitor
  (\<open>monitors/general_monitor.py\<close> and the monitor schemas) is not among the sources:
  its \<open>update_working_memory_monitors\<close>, from the entries handed over and the entries
  it holds to the entries it holds afterwards, and its
  \<open>get_sorted_mem_monitors(reverse=True)\<close> are passed in as functions. The other
  arguments are the rerank environment, the answer of the unrelated-memory filter, the
  query history and the keyword collection of the query monitor, \<open>self.top_k\<close>, the
  entries the monitor holds and the cube; the result is the cube, the monitor's entries
  and the returned list. An \<open>IndexError\<close> of the rerank step (empty query history) is
  not caught here. The web log of the replacement is not modelled.
\<close>

definition replace_working_memory ::
  "(monitor_item list \<Rightarrow> monitor_item list \<Rightarrow> monitor_item list) \<Rightarrow>
   (monitor_item list \<Rightarrow> monitor_item list) \<Rightarrow>
   rerank_env \<Rightarrow> bool list option \<Rightarrow> string list \<Rightarrow> (string \<times> int) list \<Rightarrow> nat \<Rightarrow>
   monitor_item list \<Rightarrow> mem_cube \<Rightarrow> memory_item list \<Rightarrow> memory_item list \<Rightarrow>
   py_error + (mem_cube \<times> monitor_item list \<times> memory_item list)" where
  "replace_working_memory update_working_memory_monitors get_sorted_mem_monitors
       env unrelated_answer query_history query_keywords top_k
       monitors cube original_memory new_memory =
     (case text_mem_base cube of
        TreeTextMemory \<Rightarrow>
          (let filtered_original_memory =
                 filter (\<lambda>origin_mem. ''mode:fast'' \<notin> set (tags (metadata origin_mem)))
                        original_memory
           in case process_and_rerank_memories env query_history filtered_original_memory
                     new_memory top_k of
                Inl e \<Rightarrow> Inl e
              | Inr (reranked, rerank_success_flag) \<Rightarrow>
                  (let (filtered_memories, filter_success_flag) =
                         filter_unrelated_memories unrelated_answer reranked;
                       memories_with_new_order =
                         (if filter_success_flag then filtered_memories else reranked);
                       transformed =
                         transform_working_memories_to_monitors (transform_name_to_key env)
                           query_keywords memories_with_new_order;
                       new_working_memory_monitors =
                         (if \<not> rerank_success_flag
                          then map (\<lambda>one. one\<lparr>sorting_score := 0\<rparr>) transformed
                          else transformed);
                       monitors' =
                         update_working_memory_monitors new_working_memory_monitors monitors;
                       mem_monitors = get_sorted_mem_monitors monitors';
                       new_working_memories = map tree_memory_item mem_monitors
                   in Inr (cube\<lparr>working_memory := new_working_memories\<rparr>, monitors',
                           memories_with_new_order)))
      | NaiveTextMemory \<Rightarrow>
          Inr (cube,
               update_working_memory_monitors
                 (transform_working_memories_to_monitors (transform_name_to_key env)
                    query_keywords new_memory) monitors,
               new_memory)
      | OtherTextMemory \<Rightarrow> Inr (cube, monitors, new_memory))"

section \<open>Activation memory manager\<close>

text \<open>
  \<open>activation_memory_manager.py\<close>, \<open>update_activation_memory\<close>. The activation
  memory of the cube holds a list of cache items, each with its records; every call the
  manager makes on it (and the update log at the end) is appended to a trace.
  \<open>MEMORY_ASSEMBLY_TEMPLATE\<close> of the prompt templates and the memory's \<open>extract\<close> are
  passed in, \<open>extract\<close> giving \<open>None\<close> when it raises (the \<open>try\<close> catches and logs
  it); \<open>get_utc_now()\<close> is the argument \<open>now\<close>. The new memories are a list of
  items or a list of strings.
\<close>

record kv_cache_records =
  text_memories :: "string list"
  composed_text_memory :: string
  cache_timestamp :: nat

record cache_item =
  cache_memory :: string
  records :: kv_cache_records

datatype act_mem_kind = VLLMKVCacheMemory | KVCacheMemory | OtherActivationMemory

datatype act_call = DeleteAll | Extract string | Add | Dump string | LogUpdate

record act_mem =
  act_kind :: act_mem_kind
  cache_items :: "cache_item list"
  act_calls :: "act_call list"

text \<open>\<open>str.strip()\<close>: the white space of Python among the characters of one byte.\<close>

definition py_isspace :: "char \<Rightarrow> bool" where
  "py_isspace c = (of_char c \<in> {9, 10, 11, 12, 13, 28, 29, 30, 31, 32, 133, 160 :: nat})"

definition py_strip :: "string \<Rightarrow> string" where
  "py_strip s = rev (dropWhile py_isspace (rev (dropWhile py_isspace s)))"

definition numbered_memory_text :: "string list \<Rightarrow> string" where
  "numbered_memory_text new_text_memories =
     concat (map (\<lambda>(i, sentence). string_of_nat (i + 1) @ ''. '' @ py_strip sentence @ [CHR 0x0A])
                 (filter (\<lambda>(i, sentence). py_strip sentence \<noteq> [])
                         (enumerate 0 new_text_memories)))"

definition text_memories_of :: "memory_item list + string list \<Rightarrow> string list" where
  "text_memories_of new_memories =
     (case new_memories of Inl items \<Rightarrow> map memory items | Inr texts \<Rightarrow> texts)"

definition update_activation_memory ::
  "(string \<Rightarrow> string) \<Rightarrow> (string \<Rightarrow> cache_item option) \<Rightarrow> nat \<Rightarrow> string \<Rightarrow>
   memory_item list + string list \<Rightarrow> act_mem \<Rightarrow> act_mem" where
  "update_activation_memory template act_extract now act_mem_dump_path new_memories act =
     (let new_text_memories = text_memories_of new_memories
      in if new_text_memories = [] then act
         else if act_kind act = OtherActivationMemory then act
         else
           let new_text_memory = template (numbered_memory_text new_text_memories)
           in if cache_items act \<noteq> []
                 \<and> composed_text_memory (records (last (cache_items act))) = new_text_memory
              then act
              else
                let act1 = (if cache_items act \<noteq> []
                            then act\<lparr>cache_items := [], act_calls := act_calls act @ [DeleteAll]\<rparr>
                            else act)
                in (case act_extract new_text_memory of
                      None \<Rightarrow> act1\<lparr>act_calls := act_calls act1 @ [Extract new_text_memory]\<rparr>
                    | Some cache_item \<Rightarrow>
                        act1\<lparr>cache_items :=
                               cache_items act1 @
                               [cache_item\<lparr>records := (records cache_item)
                                   \<lparr>text_memories := new_text_memories,
                                    cache_timestamp := now\<rparr>\<rparr>],
                             act_calls :=
                               act_calls act1 @
                               [Extract new_text_memory, Add, Dump act_mem_dump_path,
                                LogUpdate]\<rparr>))"




section \<open>Submitting messages\<close>

text \<open>
  \<open>queue_ops.py\<close>, \<open>submit_messages\<close>. The task labels are the constants of
  \<open>task_schemas\<close> (any other label is \<open>OTHER_TASK_LABEL\<close> with its text); the
  orchestrator's \<open>get_task_priority\<close>, the dispatcher's handler table, the current trace
  identifier and \<open>get_utc_now()\<close> are passed in. Metrics, the status tracker and the
  monitor events only record what happens, swallow their own errors, and are not
  modelled.
\<close>

datatype task_label =
  QUERY_TASK_LABEL | ANSWER_TASK_LABEL | ADD_TASK_LABEL | MEM_UPDATE_TASK_LABEL
  | MEM_READ_TASK_LABEL | MEM_ORGANIZE_TASK_LABEL | MEM_FEEDBACK_TASK_LABEL
  | PREF_ADD_TASK_LABEL | MEM_ARCHIVE_TASK_LABEL | OTHER_TASK_LABEL string

datatype task_priority_level = LEVEL_1 | LEVEL_2 | LEVEL_3

record schedule_message =
  msg_item_id :: string
  msg_user_id :: string
  msg_mem_cube_id :: string
  msg_label :: task_label
  msg_content :: string
  msg_timestamp :: "nat option"
  msg_trace_id :: "string option"

record task_execution =
  exec_user_id :: string
  exec_mem_cube_id :: string
  exec_task_label :: task_label
  exec_msgs :: "schedule_message list"
  exec_handler :: string

record scheduler =
  disabled_handlers :: "task_label list option"
  executed_tasks :: "task_execution list"
  task_queue :: "schedule_message list"

text \<open>
  The priorities \<open>build_dispatch_map\<close> of \<open>registry.py\<close> registers with the handlers:
  level 1 for query, answer and add, none for the other labels.
\<close>

definition dispatch_map_priority :: "task_label \<Rightarrow> task_priority_level option" where
  "dispatch_map_priority l =
     (if l = QUERY_TASK_LABEL \<or> l = ANSWER_TASK_LABEL \<or> l = ADD_TASK_LABEL then Some LEVEL_1
      else None)"

text \<open>The head of the loop body: the trace identifier and a missing timestamp are set.\<close>

definition stamp_message :: "string option \<Rightarrow> nat \<Rightarrow> schedule_message \<Rightarrow> schedule_message" where
  "stamp_message current_trace_id now msg =
     (let msg1 = (case current_trace_id of
                    None \<Rightarrow> msg
                  | Some t \<Rightarrow> if t \<noteq> [] then msg\<lparr>msg_trace_id := Some t\<rparr> else msg)
      in if msg_timestamp msg1 = None then msg1\<lparr>msg_timestamp := Some now\<rparr> else msg1)"

definition label_disabled :: "scheduler \<Rightarrow> task_label \<Rightarrow> bool" where
  "label_disabled st l =
     (case disabled_handlers st of None \<Rightarrow> False | Some ds \<Rightarrow> ds \<noteq> [] \<and> l \<in> set ds)"

text \<open>The first loop: \<open>continue\<close> for a disabled label, else one of the two lists.\<close>

fun split_messages ::
  "(task_label \<Rightarrow> task_priority_level) \<Rightarrow> string option \<Rightarrow> nat \<Rightarrow> scheduler \<Rightarrow>
   schedule_message list \<Rightarrow> schedule_message list \<Rightarrow> schedule_message list \<Rightarrow>
   schedule_message list \<times> schedule_message list" where
  "split_messages get_task_priority current_trace_id now st immediate_msgs queued_msgs [] =
     (immediate_msgs, queued_msgs)"
| "split_messages get_task_priority current_trace_id now st immediate_msgs queued_msgs (m # rest) =
     (let msg = stamp_message current_trace_id now m
      in if label_disabled st (msg_label msg)
         then split_messages get_task_priority current_trace_id now st
                immediate_msgs queued_msgs rest
         else if get_task_priority (msg_label msg) = LEVEL_1
         then split_messages get_task_priority current_trace_id now st
                (immediate_msgs @ [msg]) queued_msgs rest
         else split_messages get_task_priority current_trace_id now st
                immediate_msgs (queued_msgs @ [msg]) rest)"

text \<open>
  A dictionary of lists filled with \<open>d.setdefault(k, []).append(x)\<close>, in insertion
  order.
\<close>

fun group_insert :: "'k \<Rightarrow> 'a \<Rightarrow> ('k \<times> 'a list) list \<Rightarrow> ('k \<times> 'a list) list" where
  "group_insert k x [] = [(k, [x])]"
| "group_insert k x ((k', xs) # d) =
     (if k = k' then (k', xs @ [x]) # d else (k', xs) # group_insert k x d)"

fun group_by_key :: "('a \<Rightarrow> 'k) \<Rightarrow> ('k \<times> 'a list) list \<Rightarrow> 'a list \<Rightarrow> ('k \<times> 'a list) list" where
  "group_by_key f d [] = d"
| "group_by_key f d (x # xs) = group_by_key f (group_insert (f x) x d) xs"

text \<open>
  Modelled from the spec: \<open>group_messages_by_user_and_mem_cube\<close> of \<open>misc_utils\<close> (not
  among the sources). The specification groups a batch by user and cube; the result is
  the dictionary from user to the dictionary from cube to the messages, in order.
\<close>

definition group_messages_by_user_and_mem_cube ::
  "schedule_message list \<Rightarrow> (string \<times> (string \<times> schedule_message list) list) list" where
  "group_messages_by_user_and_mem_cube messages =
     map (\<lambda>(uid, msgs). (uid, group_by_key msg_mem_cube_id [] msgs))
         (group_by_key msg_user_id [] messages)"

text \<open>
  The dispatcher is not among the sources: a call of \<open>dispatcher.execute_task\<close> is
  recorded as one execution, with the user, the cube, the label, the messages of the
  group and the handler \<open>dispatcher.handlers.get(label, _default_message_handler)\<close>
  that \<open>submit_messages\<close> passes to it. The specification has the handler run inline,
  on the submitting path, before the call returns.
\<close>

definition execute_task ::
  "(task_label \<Rightarrow> string option) \<Rightarrow> string \<Rightarrow> string \<Rightarrow> task_label \<times> schedule_message list \<Rightarrow>
   task_execution" where
  "execute_task handlers uid mem_cube_id label_group =
     \<lparr>exec_user_id = uid, exec_mem_cube_id = mem_cube_id,
      exec_task_label = fst label_group, exec_msgs = snd label_group,
      exec_handler = (case handlers (fst label_group) of
                        None \<Rightarrow> ''_default_message_handler''
                      | Some handler \<Rightarrow> handler)\<rparr>"

definition run_immediate ::
  "(task_label \<Rightarrow> string option) \<Rightarrow> schedule_message list \<Rightarrow> task_execution list" where
  "run_immediate handlers immediate_msgs =
     concat (map (\<lambda>(uid, cube_groups).
                    concat (map (\<lambda>(mem_cube_id, user_cube_msgs).
                                   map (execute_task handlers uid mem_cube_id)
                                       (group_by_key msg_label [] user_cube_msgs))
                                cube_groups))
                 (group_messages_by_user_and_mem_cube immediate_msgs))"

text \<open>
  The queue back end \<open>memos_message_queue\<close> is not among the sources:
  \<open>task_queue\<close> holds, in order, the messages handed to its \<open>submit_messages\<close>.
\<close>

definition submit_messages ::
  "(task_label \<Rightarrow> task_priority_level) \<Rightarrow> (task_label \<Rightarrow> string option) \<Rightarrow> string option \<Rightarrow>
   nat \<Rightarrow> schedule_message list \<Rightarrow> scheduler \<Rightarrow> scheduler" where
  "submit_messages get_task_priority handlers current_trace_id now messages st =
     (if messages = [] then st
      else
        let (immediate_msgs, queued_msgs) =
              split_messages get_task_priority current_trace_id now st [] [] messages;
            st1 = (if immediate_msgs \<noteq> []
                   then st\<lparr>executed_tasks :=
                             executed_tasks st @ run_immediate handlers immediate_msgs\<rparr>
                   else st)
        in if queued_msgs \<noteq> [] then st1\<lparr>task_queue := task_queue st1 @ queued_msgs\<rparr> else st1)"

text \<open>
  Sample data: a priority function that follows the dispatch map (level 3 where it
  gives none), a handler table with a handler for answers only, and two messages.
\<close>

definition sample_get_task_priority :: "task_label \<Rightarrow> task_priority_level" where
  "sample_get_task_priority l =
     (case dispatch_map_priority l of None \<Rightarrow> LEVEL_3 | Some level \<Rightarrow> level)"

definition sample_handlers :: "task_label \<Rightarrow> string option" where
  "sample_handlers l = (if l = ANSWER_TASK_LABEL then Some ''answer_handler'' else None)"

definition sample_message :: "string \<Rightarrow> task_label \<Rightarrow> schedule_message" where
  "sample_message i l =
     \<lparr>msg_item_id = i, msg_user_id = ''u1'', msg_mem_cube_id = ''c1'', msg_label = l,
      msg_content = ''hello'', msg_timestamp = Some 7, msg_trace_id = None\<rparr>"

section \<open>Web log plane\<close>

text \<open>
  \<open>web_log_ops.py\<close>. A web log item is a \<open>ScheduleLogForWebItem\<close>; a dictionary of
  its content or metadata lists is an association list whose values are strings or
  \<open>None\<close>. The scheduler holds the broker configuration, the in-memory queue
  \<open>_web_log_message_queue\<close> and, here, the list of the items published to the broker.
\<close>

type_synonym py_dict = "(string \<times> string option) list"

record web_log_item =
  log_item_id :: string
  log_label :: task_label
  log_mem_cube_id :: string
  log_content :: string
  memcube_log_content :: "py_dict list"
  log_metadata :: "py_dict list"
  memcube_name :: "string option"
  memory_len :: "nat option"

record web_log_scheduler =
  rabbitmq_config :: "string option"
  web_log_message_queue :: "web_log_item list"
  rabbitmq_published :: "web_log_item list"

text \<open>
  \<open>_submit_web_logs\<close>: the loop over the messages returns from the function at the
  first message when no broker is configured; otherwise it publishes the message, an
  exception of \<open>rabbitmq_publish_message\<close> (\<open>publish_raises\<close>) being caught and logged.
\<close>

fun submit_web_logs ::
  "(web_log_item \<Rightarrow> bool) \<Rightarrow> web_log_item list \<Rightarrow> web_log_scheduler \<Rightarrow> web_log_scheduler" where
  "submit_web_logs publish_raises [] st = st"
| "submit_web_logs publish_raises (message # messages) st =
     (if rabbitmq_config st = None then st
      else if publish_raises message then submit_web_logs publish_raises messages st
      else submit_web_logs publish_raises messages
             (st\<lparr>rabbitmq_published := rabbitmq_published st @ [message]\<rparr>))"

datatype web_label =
  AddMessage | AddMemory | UpdateMemory | MergeMemory | ArchiveMemory | Unmapped task_label

definition map_label :: "task_label \<Rightarrow> web_label" where
  "map_label l =
     (if l = QUERY_TASK_LABEL then AddMessage
      else if l = ANSWER_TASK_LABEL then AddMessage
      else if l = ADD_TASK_LABEL then AddMemory
      else if l = MEM_UPDATE_TASK_LABEL then UpdateMemory
      else if l = MEM_ORGANIZE_TASK_LABEL then MergeMemory
      else if l = MEM_ARCHIVE_TASK_LABEL then ArchiveMemory
      else Unmapped l)"

definition dict_get :: "py_dict \<Rightarrow> string \<Rightarrow> string option" where
  "dict_get d k = (case map_of d k of None \<Rightarrow> None | Some v \<Rightarrow> v)"

text \<open>\<open>a or b\<close> on values that are strings or \<open>None\<close>.\<close>

definition py_or :: "string option \<Rightarrow> string option \<Rightarrow> string option" where
  "py_or a b = (case a of None \<Rightarrow> b | Some s \<Rightarrow> if s = [] then b else a)"

definition with_memory_time :: "py_dict \<Rightarrow> py_dict" where
  "with_memory_time meta =
     (if map_of meta ''memory_time'' = None
      then AList.update ''memory_time''
             (py_or (dict_get meta ''updated_at'') (dict_get meta ''update_at'')) meta
      else meta)"

record web_log_dict =
  dict_item :: web_log_item
  dict_label :: web_label
  dict_memcube_name :: "string option"
  dict_memory_len :: nat
  dict_memcube_log_content :: "py_dict list"
  dict_metadata :: "py_dict list"
  dict_log_title :: string

definition normalize_item :: "(string \<Rightarrow> string) \<Rightarrow> web_log_item \<Rightarrow> web_log_dict" where
  "normalize_item map_memcube_name item =
     (let label' = map_label (log_label item);
          memcube_content = memcube_log_content item;
          name = (case memcube_name item of
                    None \<Rightarrow> Some (map_memcube_name (log_mem_cube_id item))
                  | Some n \<Rightarrow> if n = [] then Some (map_memcube_name (log_mem_cube_id item))
                              else Some n);
          len = (case memory_len item of
                   Some n \<Rightarrow> n
                 | None \<Rightarrow>
                     if label' = MergeMemory
                     then length (filter (\<lambda>c. dict_get c ''type'' \<noteq> Some ''postMerge'')
                                         memcube_content)
                     else if memcube_content \<noteq> [] then length memcube_content
                     else if log_content item \<noteq> [] then 1 else 0)
      in \<lparr>dict_item = item, dict_label = label', dict_memcube_name = name,
          dict_memory_len = len, dict_memcube_log_content = memcube_content,
          dict_metadata = map with_memory_time (log_metadata item),
          dict_log_title = []\<rparr>)"

text \<open>\<open>get_web_log_messages\<close> drains the queue and normalizes what it held.\<close>

definition get_web_log_messages ::
  "(string \<Rightarrow> string) \<Rightarrow> web_log_scheduler \<Rightarrow> web_log_dict list \<times> web_log_scheduler" where
  "get_web_log_messages map_memcube_name st =
     (map (normalize_item map_memcube_name) (web_log_message_queue st),
      st\<lparr>web_log_message_queue := []\<rparr>)"

definition sample_log_item :: web_log_item where
  "sample_log_item =
     \<lparr>log_item_id = ''e1'', log_label = QUERY_TASK_LABEL, log_mem_cube_id = ''c1'',
      log_content = ''hello'', memcube_log_content = [], log_metadata = [],
      memcube_name = None, memory_len = None\<rparr>"

section \<open>Properties\<close>

subsection \<open>The early exit of \<open>process_session_turn\<close>\<close>

lemma process_session_turn_not_triggered:
  assumes "text_mem_base cube \<noteq> OtherTextMemory"
    and "\<not> trigger_retrieval
             (detect_intent queries
                (map memory (if text_mem_base cube = NaiveTextMemory then []
                             else take top_k (working_memory cube))))"
    and "\<not> timed_trigger"
  shows "process_session_turn detect_intent timed_trigger naive_search retriever_search
           queries cube top_k = None"
    and "long_memory_update_process detect_intent timed_trigger naive_search retriever_search
           replace_service queries cube top_k = Inl TypeError"
  using assms
  by (simp_all add: process_session_turn_def long_memory_update_process_def Let_def)

text \<open>
  C3. When the intent monitor does not ask for retrieval and the periodic timer has not
  elapsed, \<open>process_session_turn\<close> on a tree text memory should return the pair of the
  current working memory and the empty list, so that \<open>long_memory_update_process\<close> can
  unpack it. The code returns \<open>None\<close> there, and the caller's unpacking raises
  \<open>TypeError\<close>: evaluated on a cube with one working memory item.
\<close>

theorem process_session_turn_early_exit_returns_None:
  "process_session_turn
      (\<lambda>qs ws. \<lparr>trigger_retrieval = False, missing_evidences = []\<rparr>) False
      (\<lambda>q k. Some []) (\<lambda>q k. [])
      [''what is new'']
      \<lparr>text_mem_base = TreeTextMemory,
       working_memory = [\<lparr>item_id = ''w1'', memory = ''likes tea'',
                          metadata = \<lparr>tags = [], user_id = ''u'', memory_type = ''WorkingMemory''\<rparr>\<rparr>]\<rparr>
      10 = None
   \<and> long_memory_update_process
      (\<lambda>qs ws. \<lparr>trigger_retrieval = False, missing_evidences = []\<rparr>) False
      (\<lambda>q k. Some []) (\<lambda>q k. [])
      (\<lambda>cur new. cur @ new)
      [''what is new'']
      \<lparr>text_mem_base = TreeTextMemory,
       working_memory = [\<lparr>item_id = ''w1'', memory = ''likes tea'',
                          metadata = \<lparr>tags = [], user_id = ''u'', memory_type = ''WorkingMemory''\<rparr>\<rparr>]\<rparr>
      10 = Inl TypeError"
  by (simp add: process_session_turn_def long_memory_update_process_def)

subsection \<open>Retries of an enhancement batch\<close>

lemma enhancement_loop_all_fail:
  "\<forall>n. attempt_result n = None \<Longrightarrow>
   enhancement_loop attempt_result memories retries attempt =
     (memories, False, max attempt (nat (max 0 retries + 2)))"
proof (induction attempt_result memories retries attempt rule: enhancement_loop.induct)
  case (1 attempt_result memories retries attempt)
  show ?case
  proof (cases "int attempt \<le> max 0 retries + 1")
    case True
    have none: "attempt_result attempt = None"
      using "1.prems" by simp
    have "enhancement_loop attempt_result memories retries attempt =
            enhancement_loop attempt_result memories retries (Suc attempt)"
      using True none by (subst enhancement_loop.simps) simp
    also have "\<dots> = (memories, False, max (Suc attempt) (nat (max 0 retries + 2)))"
      by (rule "1.IH" [OF True none "1.prems"])
    also have "max (Suc attempt) (nat (max 0 retries + 2)) = max attempt (nat (max 0 retries + 2))"
      using True by linarith
    finally show ?thesis .
  next
    case False
    have "max attempt (nat (max 0 retries + 2)) = attempt"
      using False by linarith
    then show ?thesis
      using False by (subst enhancement_loop.simps) simp
  qed
qed

lemma split_batches_returns:
  "0 < batch_size \<Longrightarrow> \<exists>result. split_batches memories batch_size start batches = Some result"
proof (induction "length memories - start" arbitrary: start batches rule: less_induct)
  case less
  show ?case
  proof (cases "start < length memories")
    case True
    let ?e = "min (start + batch_size) (length memories)"
    have "length memories - ?e < length memories - start"
      using True less.prems by (cases "start + batch_size \<le> length memories") simp_all
    from less.hyps [OF this less.prems]
    obtain result where
      "split_batches memories batch_size ?e
         (batches @ [(start, ?e, take (?e - start) (drop start memories))]) = Some result"
      by blast
    then show ?thesis
      using True by (subst split_batches.simps) (simp add: Let_def)
  next
    case False
    then show ?thesis by (subst split_batches.simps) simp
  qed
qed

lemma enhance_success_flag_is_conjunction:
  assumes "batch_size = Some bsize" "bsize < length memories" "query_history \<noteq> []"
    and "split_batches memories bsize 0 [] = Some batches"
  shows "enhance_memories_with_query strategy parse_index_and_text extract_list_items llm
           batch_size retries query_history memories
         = Some (concat (map (\<lambda>(bi, s, e, texts).
                           fst (enhancement_loop
                                  (\<lambda>n. enhancement_attempt strategy parse_index_and_text
                                          extract_list_items texts (llm bi n))
                                  texts retries 0))
                        (enumerate 0 batches)),
                 list_all (\<lambda>(bi, s, e, texts).
                             fst (snd (enhancement_loop
                                  (\<lambda>n. enhancement_attempt strategy parse_index_and_text
                                          extract_list_items texts (llm bi n))
                                  texts retries 0)))
                          (enumerate 0 batches))"
proof -
  have ne: "memories \<noteq> []" using assms(2) by auto
  have "\<not> list_ex isl
          (map (\<lambda>(bi, s, e, texts).
                  process_enhancement_batch strategy parse_index_and_text
                    extract_list_items (llm bi) query_history texts retries)
               (enumerate 0 batches))"
    using assms(3) by (auto simp: list_ex_iff process_enhancement_batch_def)
  then show ?thesis
    using assms ne
    by (simp add: enhance_memories_with_query_def Let_def comp_def split_def
        process_enhancement_batch_def list_all_iff)
qed

text \<open>
  C7. A batch should make at most \<open>retries + 1\<close> generation attempts. With
  \<open>retries = 1\<close> and a language model whose every answer is unusable, the loop
  \<open>while attempt <= max(0, retries) + 1\<close> makes three calls before it returns the batch
  unchanged with \<open>ok = False\<close>.
\<close>

theorem process_enhancement_batch_three_attempts:
  "process_enhancement_batch REWRITE (\<lambda>s. (None, s)) (\<lambda>r. Some []) (\<lambda>n. Some ''no list'')
      [''q'']
      [\<lparr>item_id = ''m1'', memory = ''likes tea'',
        metadata = \<lparr>tags = [], user_id = ''u'', memory_type = ''LongTermMemory''\<rparr>\<rparr>]
      1
   = Inr ([\<lparr>item_id = ''m1'', memory = ''likes tea'',
            metadata = \<lparr>tags = [], user_id = ''u'', memory_type = ''LongTermMemory''\<rparr>\<rparr>],
          False, 3)"
  by (simp add: process_enhancement_batch_def enhancement_attempt_def enhancement_loop.simps)

subsection \<open>Appending and detaching related content\<close>

lemma py_find_Some_prefix:
  "py_find sub s = Some i \<Longrightarrow> prefix sub (drop i s) \<and> i \<le> length s"
  by (induction s arbitrary: i) (auto split: if_splits)

lemma py_find_Some_least:
  "py_find sub s = Some i \<Longrightarrow> j < i \<Longrightarrow> \<not> prefix sub (drop j s)"
proof (induction s arbitrary: i j)
  case Nil then show ?case by (auto split: if_splits)
next
  case (Cons c cs)
  then show ?case by (cases j) (auto split: if_splits)
qed

lemma py_find_None_iff:
  "py_find sub s = None \<longleftrightarrow> (\<forall>j\<le>length s. \<not> prefix sub (drop j s))"
proof (induction s)
  case Nil then show ?case by auto
next
  case (Cons c cs)
  show ?case
  proof (cases "prefix sub (c # cs)")
    case True
    then show ?thesis by (auto intro: exI [of _ 0])
  next
    case False
    have "(\<forall>j\<le>length (c # cs). \<not> prefix sub (drop j (c # cs))) \<longleftrightarrow>
          (\<forall>j\<le>length cs. \<not> prefix sub (drop j cs))"
    proof
      assume a: "\<forall>j\<le>length (c # cs). \<not> prefix sub (drop j (c # cs))"
      show "\<forall>j\<le>length cs. \<not> prefix sub (drop j cs)"
      proof (intro allI impI)
        fix j assume "j \<le> length cs"
        then show "\<not> prefix sub (drop j cs)" using a [rule_format, of "Suc j"] by simp
      qed
    next
      assume a: "\<forall>j\<le>length cs. \<not> prefix sub (drop j cs)"
      show "\<forall>j\<le>length (c # cs). \<not> prefix sub (drop j (c # cs))"
      proof (intro allI impI)
        fix j assume "j \<le> length (c # cs)"
        then show "\<not> prefix sub (drop j (c # cs))"
          using a False by (cases j) auto
      qed
    qed
    then show ?thesis using False Cons.IH by simp
  qed
qed

lemma no_straddle:
  assumes M: "M = nl # nl # T" and T: "nl \<notin> set T" "T \<noteq> []"
    and A: "A = nl # nl # a # B" "a \<noteq> nl"
    and u: "u \<noteq> []" and p: "prefix M (u @ A)"
  shows "prefix M u"
proof (rule ccontr)
  assume n: "\<not> prefix M u"
  from p n obtain v where v: "M = u @ v" "prefix v A"
    by (auto simp: prefix_append)
  from n v have vne: "v \<noteq> []" by auto
  with v(2) A have hv: "hd v = nl" by (cases v) auto
  from u obtain x u' where u': "u = x # u'" by (cases u) auto
  show False
  proof (cases u')
    case Nil
    with u' v M have "v = nl # T" by auto
    with v(2) A have "prefix T (nl # a # B)" by simp
    with T show False by (cases T) auto
  next
    case (Cons y u'')
    with u' v M have "T = u'' @ v" by auto
    with vne hv T show False by (cases v) auto
  qed
qed


lemma py_find_append_ge:
  assumes M: "M = nl # nl # T" and T: "nl \<notin> set T" "T \<noteq> []"
    and A: "A = nl # nl # a # B" "a \<noteq> nl"
    and none: "py_find M t = None"
  shows "py_find M (t @ A) = Some i \<Longrightarrow> length t \<le> i"
proof (rule ccontr)
  assume f: "py_find M (t @ A) = Some i" and "\<not> length t \<le> i"
  then have lt: "i < length t" by simp
  from py_find_Some_prefix [OF f] lt have p: "prefix M (drop i t @ A)" by simp
  from lt have "drop i t \<noteq> []" by simp
  from no_straddle [OF M T A this p] have "prefix M (drop i t)" .
  moreover from none lt have "\<not> prefix M (drop i t)"
    by (simp add: py_find_None_iff)
  ultimately show False by simp
qed

lemma py_find_append_at:
  assumes M: "M = nl # nl # T" and T: "nl \<notin> set T" "T \<noteq> []"
    and A: "A = nl # nl # a # B" "a \<noteq> nl"
    and none: "py_find M t = None" and pre: "prefix M A"
  shows "py_find M (t @ A) = Some (length t)"
proof -
  have "\<not> (\<forall>j\<le>length (t @ A). \<not> prefix M (drop j (t @ A)))"
    using pre by (auto intro!: exI [of _ "length t"])
  then have "py_find M (t @ A) \<noteq> None"
    unfolding py_find_None_iff by blast
  then obtain i where i: "py_find M (t @ A) = Some i"
    by blast
  from py_find_append_ge [OF M T A none i] have ge: "length t \<le> i" .
  have "\<not> length t < i"
  proof
    assume "length t < i"
    from py_find_Some_least [OF i this] pre show False by simp
  qed
  with ge i show ?thesis by simp
qed


lemma conflict_marker_shape:
  "[CHR 0x0A, CHR 0x0A] @ CONFLICT_MEMORY_TITLE @ '':'' =
     CHR 0x0A # CHR 0x0A # (CONFLICT_MEMORY_TITLE @ '':'')"
  "CHR 0x0A \<notin> set (CONFLICT_MEMORY_TITLE @ '':'')"
  "CONFLICT_MEMORY_TITLE @ '':'' \<noteq> []"
  by (simp_all add: CONFLICT_MEMORY_TITLE_def)

lemma duplicate_marker_shape:
  "[CHR 0x0A, CHR 0x0A] @ DUPLICATE_MEMORY_TITLE @ '':'' =
     CHR 0x0A # CHR 0x0A # (DUPLICATE_MEMORY_TITLE @ '':'')"
  "CHR 0x0A \<notin> set (DUPLICATE_MEMORY_TITLE @ '':'')"
  "DUPLICATE_MEMORY_TITLE @ '':'' \<noteq> []"
  by (simp_all add: DUPLICATE_MEMORY_TITLE_def)

lemma format_section_shape:
  assumes "title = CONFLICT_MEMORY_TITLE \<or> title = DUPLICATE_MEMORY_TITLE" "items \<noteq> []"
  shows "\<exists>B. format_section title items = CHR 0x0A # CHR 0x0A # CHR ''['' # B"
    and "prefix ([CHR 0x0A, CHR 0x0A] @ title @ '':'') (format_section title items)"
  using assms
  by (auto simp: format_section_def CONFLICT_MEMORY_TITLE_def DUPLICATE_MEMORY_TITLE_def)

lemma append_text_shape:
  assumes "format_section CONFLICT_MEMORY_TITLE conflicts
             @ format_section DUPLICATE_MEMORY_TITLE duplicates = A" "A \<noteq> []"
  shows "\<exists>B. A = CHR 0x0A # CHR 0x0A # CHR ''['' # B"
    and "conflicts \<noteq> [] \<Longrightarrow> prefix ([CHR 0x0A, CHR 0x0A] @ CONFLICT_MEMORY_TITLE @ '':'') A"
    and "conflicts = [] \<Longrightarrow> prefix ([CHR 0x0A, CHR 0x0A] @ DUPLICATE_MEMORY_TITLE @ '':'') A"
proof -
  show "\<exists>B. A = CHR 0x0A # CHR 0x0A # CHR ''['' # B"
  proof (cases "conflicts = []")
    case True
    with assms have "duplicates \<noteq> []" by (auto simp: format_section_def)
    from format_section_shape(1) [OF _ this, of DUPLICATE_MEMORY_TITLE] True assms(1)
    show ?thesis by (auto simp: format_section_def)
  next
    case False
    from format_section_shape(1) [OF _ this, of CONFLICT_MEMORY_TITLE] assms(1)
    show ?thesis by auto
  qed
next
  assume ne: "conflicts \<noteq> []"
  from format_section_shape(2) [OF _ this, of CONFLICT_MEMORY_TITLE] assms(1)
  show "prefix ([CHR 0x0A, CHR 0x0A] @ CONFLICT_MEMORY_TITLE @ '':'') A"
    by (metis prefix_prefix)
next
  assume e: "conflicts = []"
  with assms have "duplicates \<noteq> []" by (auto simp: format_section_def)
  from format_section_shape(2) [OF _ this, of DUPLICATE_MEMORY_TITLE] e assms(1)
  show "prefix ([CHR 0x0A, CHR 0x0A] @ DUPLICATE_MEMORY_TITLE @ '':'') A"
    by (auto simp: format_section_def)
qed

text \<open>
  C9 (as amended). For an item whose memory text holds neither section marker, and for
  all lists of duplicate and conflicting texts, \<open>_detach_related_content\<close> after
  \<open>_append_related_content\<close> gives back the item with exactly the text it had.
\<close>

theorem append_then_detach_restores:
  assumes nc: "py_find ([CHR 0x0A, CHR 0x0A] @ CONFLICT_MEMORY_TITLE @ '':'') (memory new_item) = None"
    and nd: "py_find ([CHR 0x0A, CHR 0x0A] @ DUPLICATE_MEMORY_TITLE @ '':'') (memory new_item) = None"
  shows "detach_related_content (append_related_content new_item duplicates conflicts) = new_item"
proof -
  define A where "A = format_section CONFLICT_MEMORY_TITLE conflicts
                        @ format_section DUPLICATE_MEMORY_TITLE duplicates"
  define Mc where "Mc = [CHR 0x0A, CHR 0x0A] @ CONFLICT_MEMORY_TITLE @ '':''"
  define Md where "Md = [CHR 0x0A, CHR 0x0A] @ DUPLICATE_MEMORY_TITLE @ '':''"
  define t where "t = memory new_item"
  have nc': "py_find Mc t = None" and nd': "py_find Md t = None"
    using nc nd by (simp_all add: Mc_def Md_def t_def)
  show ?thesis
  proof (cases "A = []")
    case True
    then have "append_related_content new_item duplicates conflicts = new_item"
      by (simp add: append_related_content_def A_def)
    moreover have "detach_related_content new_item = new_item"
      using nc nd by (simp add: detach_related_content_def detach_markers_def)
    ultimately show ?thesis by simp
  next
    case False
    from append_text_shape(1) [OF A_def [symmetric] False]
    obtain B where B: "A = CHR 0x0A # CHR 0x0A # CHR ''['' # B" by blast
    have a: "CHR ''['' \<noteq> CHR 0x0A" by simp
    have Mc_sh: "Mc = CHR 0x0A # CHR 0x0A # (CONFLICT_MEMORY_TITLE @ '':'')"
      by (simp add: Mc_def)
    have Md_sh: "Md = CHR 0x0A # CHR 0x0A # (DUPLICATE_MEMORY_TITLE @ '':'')"
      by (simp add: Md_def)
    have c_ge: "\<And>i. py_find Mc (t @ A) = Some i \<Longrightarrow> length t \<le> i"
      by (rule py_find_append_ge [OF Mc_sh conflict_marker_shape(2,3) B a nc'])
    have d_ge: "\<And>i. py_find Md (t @ A) = Some i \<Longrightarrow> length t \<le> i"
      by (rule py_find_append_ge [OF Md_sh duplicate_marker_shape(2,3) B a nd'])
    have cut: "cut_index_loop (t @ A) None [Mc, Md] = Some (length t)"
    proof (cases "conflicts = []")
      case True
      from append_text_shape(3) [OF A_def [symmetric] False True]
      have "prefix Md A" by (simp add: Md_def)
      from py_find_append_at [OF Md_sh duplicate_marker_shape(2,3) B a nd' this]
      have d: "py_find Md (t @ A) = Some (length t)" .
      show ?thesis
      proof (cases "py_find Mc (t @ A)")
        case None
        with d show ?thesis by simp
      next
        case (Some i)
        with c_ge [OF Some] d show ?thesis by auto
      qed
    next
      case ne: False
      from append_text_shape(2) [OF A_def [symmetric] False ne]
      have "prefix Mc A" by (simp add: Mc_def)
      from py_find_append_at [OF Mc_sh conflict_marker_shape(2,3) B a nc' this]
      have c: "py_find Mc (t @ A) = Some (length t)" .
      show ?thesis
      proof (cases "py_find Md (t @ A)")
        case None
        with c show ?thesis by simp
      next
        case (Some i)
        with d_ge [OF Some] c show ?thesis by auto
      qed
    qed
    have app: "append_related_content new_item duplicates conflicts
                 = new_item\<lparr>memory := t @ A\<rparr>"
      using False by (simp add: append_related_content_def A_def t_def Let_def)
    show ?thesis
      unfolding app detach_related_content_def detach_markers_def
      using cut by (simp add: Mc_def Md_def t_def)
  qed
qed


theorem append_then_detach_restores_witness:
  "py_find ([CHR 0x0A, CHR 0x0A] @ CONFLICT_MEMORY_TITLE @ '':'') ''Original memory.'' = None
   \<and> py_find ([CHR 0x0A, CHR 0x0A] @ DUPLICATE_MEMORY_TITLE @ '':'') ''Original memory.'' = None
   \<and> detach_related_content
        (append_related_content
           \<lparr>item_id = ''n1'', memory = ''Original memory.'',
            metadata = \<lparr>tags = [], user_id = ''u'', memory_type = ''LongTermMemory''\<rparr>\<rparr>
           [''Duplicate A''] [''Conflict A''])
       = \<lparr>item_id = ''n1'', memory = ''Original memory.'',
          metadata = \<lparr>tags = [], user_id = ''u'', memory_type = ''LongTermMemory''\<rparr>\<rparr>"
proof -
  have c: "py_find ([CHR 0x0A, CHR 0x0A] @ CONFLICT_MEMORY_TITLE @ '':'') ''Original memory.'' = None"
    by (simp add: CONFLICT_MEMORY_TITLE_def)
  have d: "py_find ([CHR 0x0A, CHR 0x0A] @ DUPLICATE_MEMORY_TITLE @ '':'') ''Original memory.'' = None"
    by (simp add: DUPLICATE_MEMORY_TITLE_def)
  show ?thesis
    using c d
      append_then_detach_restores
        [of "\<lparr>item_id = ''n1'', memory = ''Original memory.'',
              metadata = \<lparr>tags = [], user_id = ''u'', memory_type = ''LongTermMemory''\<rparr>\<rparr>"
            "[''Duplicate A'']" "[''Conflict A'']"]
    by simp
qed

text \<open>
  C9 as stated does not hold for every item: a text that already holds a marker is cut
  there, and what followed the marker in the original text is lost.
\<close>

theorem detach_cuts_original_text:
  "detach_related_content
     (append_related_content
        \<lparr>item_id = ''n1'',
         memory = ''note'' @ [CHR 0x0A, CHR 0x0A] @ ''[possibly duplicate memories]: kept'',
         metadata = \<lparr>tags = [], user_id = ''u'', memory_type = ''LongTermMemory''\<rparr>\<rparr>
        [] [''x''])
   \<noteq> \<lparr>item_id = ''n1'',
       memory = ''note'' @ [CHR 0x0A, CHR 0x0A] @ ''[possibly duplicate memories]: kept'',
       metadata = \<lparr>tags = [], user_id = ''u'', memory_type = ''LongTermMemory''\<rparr>\<rparr>"
  by (simp add: detach_related_content_def append_related_content_def format_section_def
      detach_markers_def CONFLICT_MEMORY_TITLE_def DUPLICATE_MEMORY_TITLE_def
      max_per_item_len_def max_section_len_def)

subsection \<open>Scores of the monitor entries\<close>

lemma keywords_loop_sum:
  "keywords_loop text_mem score query_keywords =
     score + (\<Sum>(keyword, count) \<leftarrow> query_keywords.
                if py_count keyword text_mem > 0
                then int (py_count keyword text_mem) * count else 0)"
  by (induction query_keywords arbitrary: score) (auto simp: Let_def)

lemma transform_length:
  "length (transform_working_memories_to_monitors key query_keywords memories) = length memories"
  by (simp add: transform_working_memories_to_monitors_def)

lemma transform_nth:
  "idx < length memories \<Longrightarrow>
   transform_working_memories_to_monitors key query_keywords memories ! idx =
     \<lparr>memory_text = memory (memories ! idx),
      tree_memory_item = memories ! idx,
      tree_memory_item_mapping_key = key (memory (memories ! idx)),
      sorting_score = int (length memories) - int idx,
      keywords_score = keywords_score_of query_keywords (memory (memories ! idx)),
      recording_count = 1\<rparr>"
  by (simp add: transform_working_memories_to_monitors_def nth_enumerate_eq)

text \<open>
  C8 (as amended). For every memory item with a non-empty text, at position \<open>idx\<close> of
  the input list, and every keyword collection, the monitor entry at \<open>idx\<close> has
  \<open>keywords_score\<close> equal to the sum over the keywords that occur at least once of
  (occurrences in the text) times (frequency), and \<open>sorting_score\<close> equal to the number
  of memories minus \<open>idx\<close>; an item with an empty text has \<open>keywords_score\<close> 0 and the
  same \<open>sorting_score\<close>.
\<close>

theorem monitor_scores:
  "idx < length memories \<Longrightarrow>
   sorting_score (transform_working_memories_to_monitors key query_keywords memories ! idx)
     = int (length memories) - int idx
   \<and> keywords_score (transform_working_memories_to_monitors key query_keywords memories ! idx)
     = (if memory (memories ! idx) \<noteq> []
        then (\<Sum>(keyword, count) \<leftarrow> query_keywords.
                if py_count keyword (memory (memories ! idx)) > 0
                then int (py_count keyword (memory (memories ! idx))) * count else 0)
        else 0)"
  by (simp add: transform_nth keywords_score_of_def keywords_loop_sum)

theorem monitor_scores_witness:
  "(1::nat) < length [\<lparr>item_id = ''a'', memory = ''tea and more tea'',
                       metadata = \<lparr>tags = [], user_id = ''u'', memory_type = ''WorkingMemory''\<rparr>\<rparr>,
                      \<lparr>item_id = ''b'', memory = ''likes coffee'',
                       metadata = \<lparr>tags = [], user_id = ''u'', memory_type = ''WorkingMemory''\<rparr>\<rparr>]
   \<and> sorting_score
        (transform_working_memories_to_monitors id [(''tea'', 3), (''coffee'', 2)]
           [\<lparr>item_id = ''a'', memory = ''tea and more tea'',
             metadata = \<lparr>tags = [], user_id = ''u'', memory_type = ''WorkingMemory''\<rparr>\<rparr>,
            \<lparr>item_id = ''b'', memory = ''likes coffee'',
             metadata = \<lparr>tags = [], user_id = ''u'', memory_type = ''WorkingMemory''\<rparr>\<rparr>] ! 1) = 1
   \<and> keywords_score
        (transform_working_memories_to_monitors id [(''tea'', 3), (''coffee'', 2)]
           [\<lparr>item_id = ''a'', memory = ''tea and more tea'',
             metadata = \<lparr>tags = [], user_id = ''u'', memory_type = ''WorkingMemory''\<rparr>\<rparr>,
            \<lparr>item_id = ''b'', memory = ''likes coffee'',
             metadata = \<lparr>tags = [], user_id = ''u'', memory_type = ''WorkingMemory''\<rparr>\<rparr>] ! 1) = 2"
  using monitor_scores
    [of 1 "[\<lparr>item_id = ''a'', memory = ''tea and more tea'',
             metadata = \<lparr>tags = [], user_id = ''u'', memory_type = ''WorkingMemory''\<rparr>\<rparr>,
            \<lparr>item_id = ''b'', memory = ''likes coffee'',
             metadata = \<lparr>tags = [], user_id = ''u'', memory_type = ''WorkingMemory''\<rparr>\<rparr>]"
        id "[(''tea'', 3), (''coffee'', 2)]"]
  by simp

text \<open>
  C8 as stated does not hold for every item and keyword collection: Python counts one
  occurrence of the empty keyword in the empty text, so the stated sum is the keyword's
  frequency, while the guard \<open>if query_keywords and text_mem\<close> leaves the score at 0.
\<close>

theorem keywords_score_empty_text:
  "keywords_score
     (transform_working_memories_to_monitors id [('''', 2)]
        [\<lparr>item_id = ''a'', memory = '''',
          metadata = \<lparr>tags = [], user_id = ''u'', memory_type = ''WorkingMemory''\<rparr>\<rparr>] ! 0)
   \<noteq> (\<Sum>(keyword, count) \<leftarrow> [('''', 2)].
         if py_count keyword '''' > 0 then int (py_count keyword '''') * count else 0)"
  by (simp add: transform_working_memories_to_monitors_def keywords_score_of_def)

subsection \<open>Reranking\<close>

lemma those_length: "those xs = Some ys \<Longrightarrow> length ys = length xs"
  by (induction xs arbitrary: ys) (auto split: option.splits)

lemma rerank_try_length:
  "rerank_try parsed original_memories top_k = Some texts \<Longrightarrow> length texts \<le> top_k"
  unfolding rerank_try_def slice_new_order_def
  by (auto split: option.splits json.splits dest!: those_length)

lemma rerank_memories_length:
  "rerank_memories env queries original_memories top_k = Inr (texts, ok) \<Longrightarrow>
   length texts \<le> top_k"
  unfolding rerank_memories_def
  by (auto simp: Let_def split: list.splits option.splits dest: rerank_try_length)

lemma memory_map_in_set:
  "memory_map env combined_memory k = Some m \<Longrightarrow> m \<in> set combined_memory"
  unfolding memory_map_def by (auto dest!: map_of_SomeD)

lemma map_back_subset: "set (map_back env combined_memory texts) \<subseteq> set combined_memory"
  unfolding map_back_def map_filter_def by (auto dest: memory_map_in_set)

lemma map_back_length: "length (map_back env combined_memory texts) \<le> length texts"
  unfolding map_back_def map_filter_def
  by (simp add: le_trans [OF length_filter_le])




text \<open>
  C10. Every item returned by \<open>process_and_rerank_memories\<close> is an element of
  \<open>original_memory\<close> or of \<open>new_memory\<close>, and at most \<open>top_k\<close> items are returned,
  whatever the success flag; the result is the list of the map entries of the reranked
  texts, a text whose key is not in the map contributing nothing.
\<close>

theorem process_and_rerank_items_from_input:
  "process_and_rerank_memories env queries original_memory new_memory top_k = Inr (items, ok) \<Longrightarrow>
   set items \<subseteq> set original_memory \<union> set new_memory
   \<and> length items \<le> top_k
   \<and> (\<exists>texts.
        rerank_memories env queries (unique_memory env (original_memory @ new_memory)) top_k
          = Inr (texts, ok)
        \<and> items = List.map_filter
                    (\<lambda>text. memory_map env (original_memory @ new_memory)
                               (transform_name_to_key env text)) texts)"
proof -
  assume a: "process_and_rerank_memories env queries original_memory new_memory top_k
               = Inr (items, ok)"
  then obtain texts where
    r: "rerank_memories env queries (unique_memory env (original_memory @ new_memory)) top_k
          = Inr (texts, ok)"
    and i: "items = map_back env (original_memory @ new_memory) texts"
    unfolding process_and_rerank_memories_def
    by (auto simp: Let_def split: sum.splits)
  have "set items \<subseteq> set original_memory \<union> set new_memory"
    using map_back_subset [of env "original_memory @ new_memory" texts] i by simp
  moreover have "length items \<le> top_k"
    using map_back_length [of env "original_memory @ new_memory" texts]
      rerank_memories_length [OF r] i by simp
  ultimately show ?thesis
    using r i unfolding map_back_def by blast
qed

theorem process_and_rerank_items_from_input_witness:
  "process_and_rerank_memories
     (sample_env (Some (JObj [(''new_order'', JList [JInt 2, JInt 0]), (''reasoning'', JStr ''d first'')])))
     [''tell me about d'']
     [sample_item ''a'' ''likes green tea'' [], sample_item ''b'' ''works in Berlin'' []]
     [sample_item ''d'' ''dislikes durian'' []] 3
   = Inr ([sample_item ''d'' ''dislikes durian'' [], sample_item ''a'' ''likes green tea'' []], True)
   \<and> set [sample_item ''d'' ''dislikes durian'' [], sample_item ''a'' ''likes green tea'' []]
       \<subseteq> set [sample_item ''a'' ''likes green tea'' [], sample_item ''b'' ''works in Berlin'' []]
         \<union> set [sample_item ''d'' ''dislikes durian'' []]
   \<and> length [sample_item ''d'' ''dislikes durian'' [], sample_item ''a'' ''likes green tea'' []] \<le> 3"
proof -
  have e: "process_and_rerank_memories
     (sample_env (Some (JObj [(''new_order'', JList [JInt 2, JInt 0]), (''reasoning'', JStr ''d first'')])))
     [''tell me about d'']
     [sample_item ''a'' ''likes green tea'' [], sample_item ''b'' ''works in Berlin'' []]
     [sample_item ''d'' ''dislikes durian'' []] 3
   = Inr ([sample_item ''d'' ''dislikes durian'' [], sample_item ''a'' ''likes green tea'' []], True)"
    by (simp add: process_and_rerank_memories_def rerank_memories_def rerank_try_def
        slice_new_order_def index_memory_def py_index_def unique_memory_def dict_fromkeys_def
        map_back_def memory_map_def map_filter_def sample_env_def sample_item_def)
  from process_and_rerank_items_from_input [OF e] e show ?thesis by blast
qed




subsection \<open>What \<open>replace_working_memory\<close> hands to the monitor\<close>

lemma process_and_rerank_result:
  "process_and_rerank_memories env queries original_memory new_memory top_k = Inr (items, ok) \<Longrightarrow>
   set items \<subseteq> set original_memory \<union> set new_memory \<and> length items \<le> top_k"
proof -
  assume "process_and_rerank_memories env queries original_memory new_memory top_k
            = Inr (items, ok)"
  then obtain texts where
    r: "rerank_memories env queries (unique_memory env (original_memory @ new_memory)) top_k
          = Inr (texts, ok)"
    and i: "items = map_back env (original_memory @ new_memory) texts"
    unfolding process_and_rerank_memories_def
    by (auto simp: Let_def split: sum.splits)
  show ?thesis
    using map_back_subset [of env "original_memory @ new_memory" texts]
      map_back_length [of env "original_memory @ new_memory" texts]
      rerank_memories_length [OF r] i by simp
qed

lemma filter_unrelated_subset:
  "filter_unrelated_memories answer memories = (kept, ok) \<Longrightarrow>
   set kept \<subseteq> set memories \<and> length kept \<le> length memories"
proof -
  assume a: "filter_unrelated_memories answer memories = (kept, ok)"
  show ?thesis
  proof (cases answer)
    case None
    with a show ?thesis by (simp add: filter_unrelated_memories_def)
  next
    case (Some keep)
    with a have k: "kept = map fst (filter snd (zip memories keep))"
      by (simp add: filter_unrelated_memories_def)
    have "set kept \<subseteq> set memories"
      unfolding k by (auto dest: set_zip_leftD)
    moreover have "length kept \<le> length memories"
      unfolding k
      using length_filter_le [of snd "zip memories keep"] by simp
    ultimately show ?thesis by simp
  qed
qed

lemma transform_entries:
  "mon \<in> set (transform_working_memories_to_monitors key query_keywords memories) \<Longrightarrow>
   tree_memory_item mon \<in> set memories
   \<and> tree_memory_item_mapping_key mon = key (memory (tree_memory_item mon))"
  unfolding transform_working_memories_to_monitors_def
  by (auto simp: in_set_enumerate_eq)

text \<open>
  On a tree text memory the working set written back is read from the monitor: it is the
  list of the items of \<open>get_sorted_mem_monitors\<close> after
  \<open>update_working_memory_monitors\<close>. What the code of \<open>replace_working_memory\<close>
  itself settles is the list of entries it hands over: at most \<open>top_k\<close> entries, each
  holding an item of \<open>new\<close> or an item of \<open>original\<close> not tagged \<open>mode:fast\<close>,
  under the normalized key of its text. Which of them, and which earlier entries, the
  monitor keeps is the monitor's matter.
\<close>

lemma replace_working_memory_hands_over:
  assumes tree: "text_mem_base cube = TreeTextMemory"
    and run: "replace_working_memory update_working_memory_monitors get_sorted_mem_monitors
                env unrelated_answer query_history query_keywords top_k
                monitors cube original_memory new_memory = Inr (cube', monitors', returned)"
  shows "\<exists>handed.
           monitors' = update_working_memory_monitors handed monitors
           \<and> working_memory cube' = map tree_memory_item (get_sorted_mem_monitors monitors')
           \<and> map tree_memory_item handed = returned
           \<and> length handed \<le> top_k
           \<and> (\<forall>mon\<in>set handed.
                 tree_memory_item_mapping_key mon
                   = transform_name_to_key env (memory (tree_memory_item mon))
                 \<and> (tree_memory_item mon \<in> set new_memory
                    \<or> (tree_memory_item mon \<in> set original_memory
                       \<and> ''mode:fast'' \<notin> set (tags (metadata (tree_memory_item mon))))))"
proof -
  define filtered_original where
    "filtered_original = filter (\<lambda>origin_mem. ''mode:fast'' \<notin> set (tags (metadata origin_mem)))
                                original_memory"
  from run tree obtain reranked rerank_ok where
    rr: "process_and_rerank_memories env query_history filtered_original new_memory top_k
           = Inr (reranked, rerank_ok)"
    unfolding replace_working_memory_def filtered_original_def
    by (auto simp: Let_def split: sum.splits)
  obtain filtered filter_ok where
    fu: "filter_unrelated_memories unrelated_answer reranked = (filtered, filter_ok)"
    by (cases "filter_unrelated_memories unrelated_answer reranked") auto
  define mwno where "mwno = (if filter_ok then filtered else reranked)"
  define transformed where
    "transformed = transform_working_memories_to_monitors (transform_name_to_key env)
                     query_keywords mwno"
  define handed where
    "handed = (if \<not> rerank_ok then map (\<lambda>one. one\<lparr>sorting_score := 0\<rparr>) transformed
               else transformed)"
  have res: "monitors' = update_working_memory_monitors handed monitors"
    "working_memory cube' = map tree_memory_item (get_sorted_mem_monitors monitors')"
    "returned = mwno"
    using run tree rr fu
    unfolding replace_working_memory_def filtered_original_def [symmetric]
    by (auto simp: Let_def handed_def transformed_def mwno_def)
  from process_and_rerank_result [OF rr]
  have rsub: "set reranked \<subseteq> set filtered_original \<union> set new_memory"
    and rlen: "length reranked \<le> top_k" by simp_all
  from filter_unrelated_subset [OF fu]
  have msub: "set mwno \<subseteq> set reranked" and mlen: "length mwno \<le> length reranked"
    by (auto simp: mwno_def)
  have items: "map tree_memory_item handed = mwno"
    by (simp add: handed_def transformed_def transform_working_memories_to_monitors_def
        comp_def split_def map_snd_enumerate)
  have hlen: "length handed \<le> top_k"
    using mlen rlen by (simp add: handed_def transformed_def transform_length)
  have ent: "\<forall>mon\<in>set handed.
               tree_memory_item_mapping_key mon
                 = transform_name_to_key env (memory (tree_memory_item mon))
               \<and> (tree_memory_item mon \<in> set new_memory
                  \<or> (tree_memory_item mon \<in> set original_memory
                     \<and> ''mode:fast'' \<notin> set (tags (metadata (tree_memory_item mon)))))"
  proof
    fix mon assume "mon \<in> set handed"
    then obtain mon0 where m0: "mon0 \<in> set transformed"
      and same: "tree_memory_item mon = tree_memory_item mon0"
        "tree_memory_item_mapping_key mon = tree_memory_item_mapping_key mon0"
      by (auto simp: handed_def split: if_splits)
    from m0 have "mon0 \<in> set (transform_working_memories_to_monitors
                               (transform_name_to_key env) query_keywords mwno)"
      by (simp add: transformed_def)
    from transform_entries [OF this] same
    have k: "tree_memory_item_mapping_key mon
               = transform_name_to_key env (memory (tree_memory_item mon))"
      and i: "tree_memory_item mon \<in> set mwno" by simp_all
    from i msub rsub have "tree_memory_item mon \<in> set filtered_original \<union> set new_memory"
      by auto
    with k show "tree_memory_item_mapping_key mon
                   = transform_name_to_key env (memory (tree_memory_item mon))
                 \<and> (tree_memory_item mon \<in> set new_memory
                    \<or> (tree_memory_item mon \<in> set original_memory
                       \<and> ''mode:fast'' \<notin> set (tags (metadata (tree_memory_item mon)))))"
      by (auto simp: filtered_original_def)
  qed
  from res items hlen ent show ?thesis by blast
qed

text \<open>
  The entries handed over are not distinct by key: an order that names an index twice
  gives the same item twice, and \<open>replace_working_memory\<close> does not remove it.
\<close>

lemma rerank_order_may_repeat_an_item:
  "process_and_rerank_memories
     (sample_env (Some (JObj [(''new_order'', JList [JInt 0, JInt 0]),
                              (''reasoning'', JStr ''twice'')])))
     [''tell me about tea'']
     [sample_item ''a'' ''likes green tea'' []] [sample_item ''b'' ''works in Berlin'' []] 3
   = Inr ([sample_item ''a'' ''likes green tea'' [], sample_item ''a'' ''likes green tea'' []],
          True)"
  by (simp add: process_and_rerank_memories_def rerank_memories_def rerank_try_def
      slice_new_order_def index_memory_def py_index_def unique_memory_def dict_fromkeys_def
      map_back_def memory_map_def map_filter_def sample_env_def sample_item_def)

subsection \<open>Refreshing the activation memory\<close>


lemma update_activation_memory_first:
  assumes "text_memories_of new_memories \<noteq> []" "act_kind act \<noteq> OtherActivationMemory"
    and "act_extract (template (numbered_memory_text (text_memories_of new_memories))) = Some item"
    and "cache_items act = []
         \<or> composed_text_memory (records (last (cache_items act)))
             \<noteq> template (numbered_memory_text (text_memories_of new_memories))"
  shows "cache_items (update_activation_memory template act_extract now path new_memories act)
           = [item\<lparr>records := (records item)
                 \<lparr>text_memories := text_memories_of new_memories, cache_timestamp := now\<rparr>\<rparr>]"
    and "count_list (act_calls (update_activation_memory template act_extract now path new_memories act)) Add
           = count_list (act_calls act) Add + 1"
    and "act_kind (update_activation_memory template act_extract now path new_memories act)
           = act_kind act"
  using assms by (auto simp: update_activation_memory_def Let_def)

text \<open>
  \<open>update_activation_memory\<close> writes \<open>text_memories\<close> and the time stamp into the
  records of the extracted item, and never \<open>composed_text_memory\<close>, the field it
  compares the next prompt with. When \<open>extract\<close> gives an item whose records hold
  another composed text than the prompt, the item added by one refresh does not stop the
  next one: a second refresh over the same working set deletes the cache, and extracts,
  adds and dumps again.
\<close>

lemma update_activation_memory_again:
  assumes "text_memories_of new_memories \<noteq> []" "act_kind act \<noteq> OtherActivationMemory"
    and "act_extract (template (numbered_memory_text (text_memories_of new_memories))) = Some item"
    and "composed_text_memory (records item)
           \<noteq> template (numbered_memory_text (text_memories_of new_memories))"
    and "cache_items act = []
         \<or> composed_text_memory (records (last (cache_items act)))
             \<noteq> template (numbered_memory_text (text_memories_of new_memories))"
  shows "act_calls (update_activation_memory template act_extract later path new_memories
                      (update_activation_memory template act_extract now path new_memories act))
           = act_calls (update_activation_memory template act_extract now path new_memories act)
             @ [DeleteAll,
                Extract (template (numbered_memory_text (text_memories_of new_memories))),
                Add, Dump path, LogUpdate]"
    and "cache_items (update_activation_memory template act_extract later path new_memories
                        (update_activation_memory template act_extract now path new_memories act))
           = [item\<lparr>records := (records item)
                 \<lparr>text_memories := text_memories_of new_memories, cache_timestamp := later\<rparr>\<rparr>]"
proof -
  let ?t = "template (numbered_memory_text (text_memories_of new_memories))"
  let ?act1 = "update_activation_memory template act_extract now path new_memories act"
  have first: "cache_items ?act1
           = [item\<lparr>records := (records item)
                 \<lparr>text_memories := text_memories_of new_memories, cache_timestamp := now\<rparr>\<rparr>]"
    and kind: "act_kind ?act1 = act_kind act"
    using assms(1,2,3,5) by (rule update_activation_memory_first)+
  have ne: "cache_items ?act1 \<noteq> []"
    and diff: "composed_text_memory (records (last (cache_items ?act1))) \<noteq> ?t"
    using first assms(4) by simp_all
  show "act_calls (update_activation_memory template act_extract later path new_memories ?act1)
          = act_calls ?act1 @ [DeleteAll, Extract ?t, Add, Dump path, LogUpdate]"
    using ne diff kind assms(1,2,3)
    by (subst update_activation_memory_def) (simp add: Let_def)
  show "cache_items (update_activation_memory template act_extract later path new_memories ?act1)
          = [item\<lparr>records := (records item)
                \<lparr>text_memories := text_memories_of new_memories, cache_timestamp := later\<rparr>\<rparr>]"
    using ne diff kind assms(1,2,3)
    by (subst update_activation_memory_def) (simp add: Let_def)
qed




subsection \<open>Routing of submitted messages\<close>

lemma split_messages_eq:
  "split_messages prio trace now st imm que messages =
     (imm @ filter (\<lambda>m. \<not> label_disabled st (msg_label m) \<and> prio (msg_label m) = LEVEL_1)
              (map (stamp_message trace now) messages),
      que @ filter (\<lambda>m. \<not> label_disabled st (msg_label m) \<and> prio (msg_label m) \<noteq> LEVEL_1)
              (map (stamp_message trace now) messages))"
  by (induction messages arbitrary: imm que) (auto simp: Let_def)

lemma stamp_message_label [simp]: "msg_label (stamp_message trace now m) = msg_label m"
  by (simp add: stamp_message_def Let_def split: option.splits)

lemma group_insert_members:
  "(\<Union>p\<in>set (group_insert k x d). set (snd p)) = insert x (\<Union>p\<in>set d. set (snd p))"
proof (induction d)
  case Nil
  then show ?case by simp
next
  case (Cons a d)
  obtain k' xs where a: "a = (k', xs)" by (cases a)
  show ?case
  proof (cases "k = k'")
    case True
    then show ?thesis unfolding a by simp
  next
    case False
    then show ?thesis unfolding a using Cons.IH by (simp add: Un_commute insert_commute Un_left_commute)
  qed
qed

lemma group_by_key_members:
  "(\<Union>p\<in>set (group_by_key f d xs). set (snd p)) = (\<Union>p\<in>set d. set (snd p)) \<union> set xs"
proof (induction xs arbitrary: d)
  case Nil
  then show ?case by simp
next
  case (Cons x xs)
  have "(\<Union>p\<in>set (group_by_key f d (x # xs)). set (snd p))
          = (\<Union>p\<in>set (group_insert (f x) x d). set (snd p)) \<union> set xs"
    using Cons.IH [of "group_insert (f x) x d"] by simp
  also have "\<dots> = insert x (\<Union>p\<in>set d. set (snd p)) \<union> set xs"
    by (simp only: group_insert_members)
  finally show ?case by simp
qed

lemma group_insert_keyed:
  "\<forall>p\<in>set d. \<forall>y\<in>set (snd p). f y = fst p \<Longrightarrow> k = f x \<Longrightarrow>
   \<forall>p\<in>set (group_insert k x d). \<forall>y\<in>set (snd p). f y = fst p"
proof (induction d)
  case Nil
  then show ?case by simp
next
  case (Cons a d)
  obtain k' xs where a: "a = (k', xs)" by (cases a)
  from Cons.prems have d: "\<forall>p\<in>set d. \<forall>y\<in>set (snd p). f y = fst p"
    and h: "\<forall>y\<in>set xs. f y = k'" unfolding a by simp_all
  show ?case
  proof (cases "k = k'")
    case True
    with d h Cons.prems(2) show ?thesis unfolding a by simp
  next
    case False
    with Cons.IH [OF d Cons.prems(2)] h show ?thesis unfolding a by simp
  qed
qed

lemma group_by_key_keyed:
  "\<forall>p\<in>set d. \<forall>y\<in>set (snd p). f y = fst p \<Longrightarrow>
   \<forall>p\<in>set (group_by_key f d xs). \<forall>y\<in>set (snd p). f y = fst p"
proof (induction xs arbitrary: d)
  case Nil
  then show ?case by simp
next
  case (Cons x xs)
  have "\<forall>p\<in>set (group_insert (f x) x d). \<forall>y\<in>set (snd p). f y = fst p"
    using Cons.prems by (rule group_insert_keyed [where f = f and k = "f x" and x = x]) simp
  then have "\<forall>p\<in>set (group_by_key f (group_insert (f x) x d) xs). \<forall>y\<in>set (snd p). f y = fst p"
    by (rule Cons.IH)
  then show ?case by simp
qed

lemma group_by_key_in:
  assumes "(k, ys) \<in> set (group_by_key f [] xs)" "y \<in> set ys"
  shows "y \<in> set xs \<and> f y = k"
proof -
  from assms have "y \<in> (\<Union>p\<in>set (group_by_key f [] xs). set (snd p))"
    by (rule_tac a = "(k, ys)" in UN_I) simp_all
  then have "y \<in> set xs" by (simp only: group_by_key_members) simp
  moreover have "\<forall>p\<in>set (group_by_key f [] xs). \<forall>y\<in>set (snd p). f y = fst p"
    by (rule group_by_key_keyed [where f = f and d = "[]" and xs = xs]) simp
  then have "\<forall>y\<in>set (snd (k, ys)). f y = fst (k, ys)"
    using assms(1) by (rule bspec)
  with assms(2) have "f y = k" by simp
  ultimately show ?thesis by simp
qed

lemma group_by_key_covers:
  assumes "x \<in> set xs"
  shows "\<exists>ys. (f x, ys) \<in> set (group_by_key f [] xs) \<and> x \<in> set ys"
proof -
  from assms have "x \<in> (\<Union>p\<in>set (group_by_key f [] xs). set (snd p))"
    by (simp only: group_by_key_members) simp
  then obtain p where p: "p \<in> set (group_by_key f [] xs)" "x \<in> set (snd p)"
    by blast
  obtain k ys where kys: "p = (k, ys)" by (cases p)
  with p have g: "(k, ys) \<in> set (group_by_key f [] xs)" "x \<in> set ys" by simp_all
  from group_by_key_in [OF g] have "f x = k" by simp
  with g show ?thesis by blast
qed

lemma run_immediate_iff:
  "e \<in> set (run_immediate handlers msgs) \<longleftrightarrow>
     (\<exists>uid ums cid cms g.
        (uid, ums) \<in> set (group_by_key msg_user_id [] msgs)
        \<and> (cid, cms) \<in> set (group_by_key msg_mem_cube_id [] ums)
        \<and> g \<in> set (group_by_key msg_label [] cms)
        \<and> e = execute_task handlers uid cid g)"
  unfolding run_immediate_def group_messages_by_user_and_mem_cube_def
  by (auto simp: split_def image_iff) force+

lemma run_immediate_covers:
  assumes "m \<in> set msgs"
  shows "\<exists>e\<in>set (run_immediate handlers msgs).
           m \<in> set (exec_msgs e) \<and> exec_task_label e = msg_label m
           \<and> exec_user_id e = msg_user_id m \<and> exec_mem_cube_id e = msg_mem_cube_id m
           \<and> exec_handler e = (case handlers (msg_label m) of
                                  None \<Rightarrow> ''_default_message_handler''
                                | Some handler \<Rightarrow> handler)"
proof -
  from group_by_key_covers [OF assms, of msg_user_id]
  obtain ums where u: "(msg_user_id m, ums) \<in> set (group_by_key msg_user_id [] msgs)"
    "m \<in> set ums" by blast
  from group_by_key_covers [OF u(2), of msg_mem_cube_id]
  obtain cms where c: "(msg_mem_cube_id m, cms) \<in> set (group_by_key msg_mem_cube_id [] ums)"
    "m \<in> set cms" by blast
  from group_by_key_covers [OF c(2), of msg_label]
  obtain lms where l: "(msg_label m, lms) \<in> set (group_by_key msg_label [] cms)"
    "m \<in> set lms" by blast
  let ?e = "execute_task handlers (msg_user_id m) (msg_mem_cube_id m) (msg_label m, lms)"
  have "?e \<in> set (run_immediate handlers msgs)"
    unfolding run_immediate_iff using u(1) c(1) l(1) by blast
  moreover have "m \<in> set (exec_msgs ?e)" "exec_task_label ?e = msg_label m"
    "exec_user_id ?e = msg_user_id m" "exec_mem_cube_id ?e = msg_mem_cube_id m"
    "exec_handler ?e = (case handlers (msg_label m) of
                          None \<Rightarrow> ''_default_message_handler''
                        | Some handler \<Rightarrow> handler)"
    using l(2) by (simp_all add: execute_task_def)
  ultimately show ?thesis by blast
qed

lemma run_immediate_only:
  assumes "e \<in> set (run_immediate handlers msgs)" "m \<in> set (exec_msgs e)"
  shows "m \<in> set msgs"
proof -
  from assms(1) obtain uid ums cid cms g where
    u: "(uid, ums) \<in> set (group_by_key msg_user_id [] msgs)"
    and c: "(cid, cms) \<in> set (group_by_key msg_mem_cube_id [] ums)"
    and g: "g \<in> set (group_by_key msg_label [] cms)"
    and e: "e = execute_task handlers uid cid g"
    unfolding run_immediate_iff by blast
  obtain l lms where gl: "g = (l, lms)" by (cases g)
  from assms(2) e gl have "m \<in> set lms" by (simp add: execute_task_def)
  with g gl group_by_key_in [of l lms msg_label cms m] have "m \<in> set cms" by simp
  with c group_by_key_in [of cid cms msg_mem_cube_id ums m] have "m \<in> set ums" by simp
  with u group_by_key_in [of uid ums msg_user_id msgs m] show ?thesis by simp
qed

text \<open>
  C4 (as amended). For every batch passed to \<open>submit_messages\<close> and every message of it
  whose label is not among the disabled handlers: if the label has priority level 1 the
  message is handed, in a group with its label, to \<open>execute_task\<close> with the handler
  registered for the label before \<open>submit_messages\<close> returns, and is not put on the task
  queue; otherwise it is put on the task queue and is not executed. A message whose
  label is disabled is neither executed nor queued.
\<close>

theorem submit_messages_routing:
  assumes "m \<in> set messages"
  shows "\<exists>E Q.
           submit_messages get_task_priority handlers current_trace_id now messages st
             = st\<lparr>executed_tasks := executed_tasks st @ E, task_queue := task_queue st @ Q\<rparr>
           \<and> (let msg = stamp_message current_trace_id now m
              in if label_disabled st (msg_label m)
                 then msg \<notin> set Q \<and> (\<forall>e\<in>set E. msg \<notin> set (exec_msgs e))
                 else if get_task_priority (msg_label m) = LEVEL_1
                 then (\<exists>e\<in>set E. msg \<in> set (exec_msgs e)
                          \<and> exec_task_label e = msg_label m
                          \<and> exec_handler e = (case handlers (msg_label m) of
                                                 None \<Rightarrow> ''_default_message_handler''
                                               | Some handler \<Rightarrow> handler))
                      \<and> msg \<notin> set Q
                 else msg \<in> set Q \<and> (\<forall>e\<in>set E. msg \<notin> set (exec_msgs e)))"
proof -
  define stamped where "stamped = map (stamp_message current_trace_id now) messages"
  define imm where
    "imm = filter (\<lambda>m. \<not> label_disabled st (msg_label m) \<and> get_task_priority (msg_label m) = LEVEL_1)
             stamped"
  define que where
    "que = filter (\<lambda>m. \<not> label_disabled st (msg_label m) \<and> get_task_priority (msg_label m) \<noteq> LEVEL_1)
             stamped"
  define msg where "msg = stamp_message current_trace_id now m"
  have ne: "messages \<noteq> []" using assms by auto
  have split: "split_messages get_task_priority current_trace_id now st [] [] messages = (imm, que)"
    by (simp add: split_messages_eq imm_def que_def stamped_def)
  have run: "submit_messages get_task_priority handlers current_trace_id now messages st
               = st\<lparr>executed_tasks := executed_tasks st @ run_immediate handlers imm,
                    task_queue := task_queue st @ que\<rparr>"
  proof (cases "imm = []")
    case True
    then have "run_immediate handlers imm = []"
      by (simp add: run_immediate_def group_messages_by_user_and_mem_cube_def)
    with True ne split show ?thesis
      by (cases "que = []") (simp_all add: submit_messages_def)
  next
    case False
    with ne split show ?thesis
      by (cases "que = []") (simp_all add: submit_messages_def)
  qed
  have lab: "msg_label msg = msg_label m" by (simp add: msg_def)
  have mem: "msg \<in> set stamped" using assms by (simp add: msg_def stamped_def)
  have inimm: "msg \<in> set imm \<longleftrightarrow>
                 \<not> label_disabled st (msg_label m) \<and> get_task_priority (msg_label m) = LEVEL_1"
    using mem lab by (simp add: imm_def)
  have inque: "msg \<in> set que \<longleftrightarrow>
                 \<not> label_disabled st (msg_label m) \<and> get_task_priority (msg_label m) \<noteq> LEVEL_1"
    using mem lab by (simp add: que_def)
  have notexec: "msg \<notin> set imm \<Longrightarrow> \<forall>e\<in>set (run_immediate handlers imm). msg \<notin> set (exec_msgs e)"
    using run_immediate_only [of _ handlers imm msg] by blast
  have exec: "msg \<in> set imm \<Longrightarrow>
              \<exists>e\<in>set (run_immediate handlers imm). msg \<in> set (exec_msgs e)
                 \<and> exec_task_label e = msg_label m
                 \<and> exec_handler e = (case handlers (msg_label m) of
                                        None \<Rightarrow> ''_default_message_handler''
                                      | Some handler \<Rightarrow> handler)"
    using run_immediate_covers [of msg imm handlers] lab by auto
  have "let msg = stamp_message current_trace_id now m
        in if label_disabled st (msg_label m)
           then msg \<notin> set que \<and> (\<forall>e\<in>set (run_immediate handlers imm). msg \<notin> set (exec_msgs e))
           else if get_task_priority (msg_label m) = LEVEL_1
           then (\<exists>e\<in>set (run_immediate handlers imm). msg \<in> set (exec_msgs e)
                    \<and> exec_task_label e = msg_label m
                    \<and> exec_handler e = (case handlers (msg_label m) of
                                           None \<Rightarrow> ''_default_message_handler''
                                         | Some handler \<Rightarrow> handler))
                \<and> msg \<notin> set que
           else msg \<in> set que \<and> (\<forall>e\<in>set (run_immediate handlers imm). msg \<notin> set (exec_msgs e))"
    unfolding Let_def msg_def [symmetric]
    using inimm inque notexec exec by (cases "label_disabled st (msg_label m)") auto
  with run show ?thesis by blast
qed

theorem submit_messages_routing_witness:
  "sample_message ''i1'' ANSWER_TASK_LABEL
     \<in> set [sample_message ''i1'' ANSWER_TASK_LABEL, sample_message ''i2'' MEM_ORGANIZE_TASK_LABEL]
   \<and> submit_messages sample_get_task_priority sample_handlers None 9
        [sample_message ''i1'' ANSWER_TASK_LABEL, sample_message ''i2'' MEM_ORGANIZE_TASK_LABEL]
        \<lparr>disabled_handlers = None, executed_tasks = [], task_queue = []\<rparr>
     = \<lparr>disabled_handlers = None,
        executed_tasks = [\<lparr>exec_user_id = ''u1'', exec_mem_cube_id = ''c1'',
                           exec_task_label = ANSWER_TASK_LABEL,
                           exec_msgs = [sample_message ''i1'' ANSWER_TASK_LABEL],
                           exec_handler = ''answer_handler''\<rparr>],
        task_queue = [sample_message ''i2'' MEM_ORGANIZE_TASK_LABEL]\<rparr>
   \<and> (\<exists>E Q. submit_messages sample_get_task_priority sample_handlers None 9
        [sample_message ''i1'' ANSWER_TASK_LABEL, sample_message ''i2'' MEM_ORGANIZE_TASK_LABEL]
        \<lparr>disabled_handlers = None, executed_tasks = [], task_queue = []\<rparr>
          = \<lparr>disabled_handlers = None, executed_tasks = E, task_queue = Q\<rparr>
        \<and> (\<exists>e\<in>set E. sample_message ''i1'' ANSWER_TASK_LABEL \<in> set (exec_msgs e)
               \<and> exec_task_label e = ANSWER_TASK_LABEL \<and> exec_handler e = ''answer_handler'')
        \<and> sample_message ''i1'' ANSWER_TASK_LABEL \<notin> set Q)"
proof -
  let ?a = "sample_message ''i1'' ANSWER_TASK_LABEL"
  let ?r = "sample_message ''i2'' MEM_ORGANIZE_TASK_LABEL"
  let ?st = "\<lparr>disabled_handlers = None, executed_tasks = [], task_queue = []\<rparr>"
  have m: "?a \<in> set [?a, ?r]" by simp
  have stamp: "stamp_message None 9 ?a = ?a"
    by (simp add: stamp_message_def sample_message_def)
  have facts: "\<not> label_disabled ?st (msg_label ?a)"
    "sample_get_task_priority (msg_label ?a) = LEVEL_1"
    "(case sample_handlers (msg_label ?a) of None \<Rightarrow> ''_default_message_handler''
      | Some handler \<Rightarrow> handler) = ''answer_handler''"
    "msg_label ?a = ANSWER_TASK_LABEL"
    by (simp_all add: label_disabled_def sample_get_task_priority_def dispatch_map_priority_def
        sample_handlers_def sample_message_def)
  have run: "submit_messages sample_get_task_priority sample_handlers None 9 [?a, ?r] ?st
     = \<lparr>disabled_handlers = None,
        executed_tasks = [\<lparr>exec_user_id = ''u1'', exec_mem_cube_id = ''c1'',
                           exec_task_label = ANSWER_TASK_LABEL,
                           exec_msgs = [?a], exec_handler = ''answer_handler''\<rparr>],
        task_queue = [?r]\<rparr>"
    by (simp add: submit_messages_def stamp_message_def label_disabled_def
        sample_get_task_priority_def dispatch_map_priority_def sample_handlers_def
        sample_message_def run_immediate_def group_messages_by_user_and_mem_cube_def
        execute_task_def)
  from submit_messages_routing
         [OF m, where get_task_priority = sample_get_task_priority and handlers = sample_handlers
            and current_trace_id = None and now = 9 and st = ?st]
  have "\<exists>E Q. submit_messages sample_get_task_priority sample_handlers None 9 [?a, ?r] ?st
          = \<lparr>disabled_handlers = None, executed_tasks = E, task_queue = Q\<rparr>
        \<and> (\<exists>e\<in>set E. ?a \<in> set (exec_msgs e)
               \<and> exec_task_label e = ANSWER_TASK_LABEL \<and> exec_handler e = ''answer_handler'')
        \<and> ?a \<notin> set Q"
    unfolding Let_def stamp using facts by simp
  with m run show ?thesis by blast
qed

text \<open>
  C4 as stated does not hold for every batch: with the answer label among the disabled
  handlers, an answer message, of priority level 1, is skipped; it is neither executed
  nor queued.
\<close>

theorem disabled_level_1_message_is_skipped:
  "sample_get_task_priority (msg_label (sample_message ''i1'' ANSWER_TASK_LABEL)) = LEVEL_1
   \<and> submit_messages sample_get_task_priority sample_handlers None 9
        [sample_message ''i1'' ANSWER_TASK_LABEL]
        \<lparr>disabled_handlers = Some [ANSWER_TASK_LABEL], executed_tasks = [], task_queue = []\<rparr>
     = \<lparr>disabled_handlers = Some [ANSWER_TASK_LABEL], executed_tasks = [], task_queue = []\<rparr>"
  by (simp add: submit_messages_def stamp_message_def label_disabled_def
      sample_get_task_priority_def dispatch_map_priority_def sample_message_def)

subsection \<open>Web logs without a broker\<close>

lemma submit_web_logs_without_broker:
  "rabbitmq_config st = None \<Longrightarrow> submit_web_logs publish_raises messages st = st"
  by (cases messages) simp_all

text \<open>
  C6. Without a broker every submitted event should be appended to the in-memory web
  log queue and come back, normalized, from \<open>get_web_log_messages\<close>. The code returns
  from \<open>_submit_web_logs\<close> before it touches the queue: after one event is submitted to
  a scheduler with no broker and an empty queue, the scheduler is unchanged and
  \<open>get_web_log_messages\<close> returns the empty list.
\<close>

theorem web_log_event_is_lost_without_broker:
  "submit_web_logs (\<lambda>message. False) [sample_log_item]
     \<lparr>rabbitmq_config = None, web_log_message_queue = [], rabbitmq_published = []\<rparr>
   = \<lparr>rabbitmq_config = None, web_log_message_queue = [], rabbitmq_published = []\<rparr>
   \<and> fst (get_web_log_messages (\<lambda>cube_id. cube_id)
            (submit_web_logs (\<lambda>message. False) [sample_log_item]
               \<lparr>rabbitmq_config = None, web_log_message_queue = [], rabbitmq_published = []\<rparr>))
     = []"
  by (simp add: get_web_log_messages_def)

end
